theory Spec2Isabelle
  imports Complex_Main
begin

section \<open>Python values the script relies on\<close>

text \<open>
  The script \<^verbatim>\<open>Reuters_multiclass_classification/model.py\<close> is a class \<^verbatim>\<open>Model\<close> of seven
  methods around a deep-learning framework. Exceptions are values: every method that can
  raise returns a sum, with \<open>Inl\<close> the exception and \<open>Inr\<close> the result. What a method changes
  is returned with its result: the world outside the object and the object itself.
\<close>

datatype error =
    KeyError string
  | ValueError string
  | OSError string

text \<open>Python's \<^verbatim>\<open>str\<close> of a non-negative integer, used by the framework's automatic names.\<close>

fun str :: "nat \<Rightarrow> string" where
  "str n = (if n < 10 then [''0123456789'' ! n]
            else str (n div 10) @ [''0123456789'' ! (n mod 10)])"

declare str.simps [simp del]

text \<open>
  \<^verbatim>\<open>os.path.join\<close> with two arguments and \<^verbatim>\<open>os.path.dirname\<close>, as \<^verbatim>\<open>posixpath\<close> defines them: an
  absolute second component discards the first, an empty first component or one that ends
  in a slash is extended without a separator, anything else gets one slash.
\<close>

definition os_path_join :: "string \<Rightarrow> string \<Rightarrow> string" where
  "os_path_join a b =
     (if b \<noteq> [] \<and> hd b = CHR ''/'' then b
      else if a = [] \<or> last a = CHR ''/'' then a @ b
      else a @ ''/'' @ b)"

definition os_path_dirname :: "string \<Rightarrow> string" where
  "os_path_dirname p =
     (let head = rev (dropWhile (\<lambda>c. c \<noteq> CHR ''/'') (rev p))
      in if head \<noteq> [] \<and> head \<noteq> replicate (length head) (CHR ''/'')
         then rev (dropWhile (\<lambda>c. c = CHR ''/'') (rev head))
         else head)"

text \<open>Python's truth value of an optional string: \<^verbatim>\<open>None\<close> and \<^verbatim>\<open>""\<close> are false.\<close>

fun truthy :: "string option \<Rightarrow> bool" where
  "truthy None = False"
| "truthy (Some s) = (s \<noteq> [])"

text \<open>A keyword argument left out takes its default.\<close>

fun default :: "'a \<Rightarrow> 'a option \<Rightarrow> 'a" where
  "default d None = d"
| "default d (Some v) = v"

section \<open>The framework's networks\<close>

datatype activation_fn = Relu | Softmax

datatype loss_fn = Categorical_crossentropy | Mean_squared_error

record dense =
  units :: nat
  activation :: activation_fn
  kernel :: "real list list"
  bias :: "real list"

text \<open>
  A network's full state: its name, its topology with the numeric parameters, and what
  \<^verbatim>\<open>compile\<close> attached (optimizer with its state, loss, metrics).
\<close>

record network =
  name :: string
  input_dim :: nat
  layers :: "dense list"
  optimizer :: "string option"
  optimizer_state :: "real list"
  loss :: "loss_fn option"
  metrics :: "string list"

type_synonym ref = nat

text \<open>
  Everything outside the \<^verbatim>\<open>Model\<close> object: the framework's live network objects by
  reference, the counter behind automatic names, the files holding saved networks with the
  trace of the paths written, and what was printed.
\<close>

record world =
  heap :: "ref \<Rightarrow> network"
  next_ref :: ref
  uid :: nat
  fs :: "string \<rightharpoonup> network"
  written :: "string list"
  stdout :: "string list"

section \<open>The framework operations the script calls\<close>

text \<open>
  The framework itself is no part of the repository. Its operations are written down here
  from the specification and the script's docstrings, over the reals instead of machine
  floats. The numeric values of an optimizer step are a parameter, and so is the scoring that
  \<^verbatim>\<open>fit\<close> and \<^verbatim>\<open>evaluate\<close> apply; \<open>keras_score\<close> is the scoring the script compiles its network
  with.
\<close>

subsection \<open>Building a network\<close>

text \<open>
  A symbolic tensor while a network is assembled: its width and the layers that lead to it.
\<close>

type_synonym tensor = "nat \<times> dense list"

definition Input :: "nat \<Rightarrow> tensor" where
  "Input n = (n, [])"

text \<open>
  Modelled from the spec: a dense layer of the framework ("hidden dense layers of width 64",
  "output dense layer of width 46"). Applied to a tensor of width \<open>d\<close> it owns one weight row
  of length \<open>d\<close> and one bias per unit; \<open>init\<close> stands for the draw of the random initial
  weights.
\<close>

definition Dense :: "(nat \<Rightarrow> nat \<Rightarrow> real) \<Rightarrow> nat \<Rightarrow> activation_fn \<Rightarrow> tensor \<Rightarrow> tensor" where
  "Dense init n act t =
     (n, snd t @ [\<lparr>units = n, activation = act,
                   kernel = map (\<lambda>j. map (\<lambda>i. init j i) [0..<fst t]) [0..<n],
                   bias = replicate n 0\<rparr>])"

text \<open>
  Modelled from the spec: the framework's network constructor. A network that is given no
  name gets the next automatic one (\<^verbatim>\<open>model_1\<close>, \<^verbatim>\<open>model_2\<close>, ..., the docstring of \<^verbatim>\<open>predict\<close>
  names \<^verbatim>\<open>model_1.h5\<close>), and is a new object.
\<close>

definition keras_Model :: "world \<Rightarrow> tensor \<Rightarrow> tensor \<Rightarrow> ref \<times> world" where
  "keras_Model w inputs outputs =
     (let n = uid w + 1;
          r = next_ref w;
          net = \<lparr>name = ''model_'' @ str n, input_dim = fst inputs, layers = snd outputs,
                 optimizer = None, optimizer_state = [], loss = None, metrics = []\<rparr>
      in (r, w\<lparr>heap := (heap w)(r := net), next_ref := r + 1, uid := n\<rparr>))"

text \<open>Modelled from the spec: \<^verbatim>\<open>compile\<close> binds optimizer, loss and metrics to the network.\<close>

definition keras_compile :: "world \<Rightarrow> ref \<Rightarrow> string \<Rightarrow> loss_fn \<Rightarrow> string list \<Rightarrow> world" where
  "keras_compile w m opt l ms =
     w\<lparr>heap := (heap w)(m := (heap w m)\<lparr>optimizer := Some opt, loss := Some l, metrics := ms\<rparr>)\<rparr>"

subsection \<open>The forward pass\<close>

definition relu :: "real \<Rightarrow> real" where
  "relu z = max 0 z"

text \<open>Modelled from the spec: the "normalized-probability activation".\<close>

definition softmax :: "real list \<Rightarrow> real list" where
  "softmax zs = map (\<lambda>z. exp z / sum_list (map exp zs)) zs"

fun activate :: "activation_fn \<Rightarrow> real list \<Rightarrow> real list" where
  "activate Relu zs = map relu zs"
| "activate Softmax zs = softmax zs"

definition dot :: "real list \<Rightarrow> real list \<Rightarrow> real" where
  "dot u v = sum_list (map2 (*) u v)"

text \<open>Modelled from the spec: a dense layer computes activation(weights . input + bias).\<close>

definition dense_call :: "dense \<Rightarrow> real list \<Rightarrow> real list" where
  "dense_call l x = activate (activation l) (map2 (\<lambda>row b. dot row x + b) (kernel l) (bias l))"

definition forward :: "network \<Rightarrow> real list \<Rightarrow> real list" where
  "forward net x = fold dense_call (layers net) x"

text \<open>
  Modelled from the spec: forward inference on a batch ("Input: a batch of feature vectors
  of shape (n, 10000) ... Output: an (n, 46) array"); a row of another width is a shape
  mismatch, which the framework raises. No parameter is touched.
\<close>

definition keras_predict :: "network \<Rightarrow> real list list \<Rightarrow> error + real list list" where
  "keras_predict net xs =
     (if list_all (\<lambda>x. length x = input_dim net) xs then Inr (map (forward net) xs)
      else Inl (ValueError ''expected input of another shape''))"

subsection \<open>Training and scoring\<close>

type_synonym split = "real list list \<times> real list list"

type_synonym history = "string \<rightharpoonup> real list"

text \<open>
  The numerics the embedding leaves open: one epoch of the optimizer over the training
  split (batch size, split, network before; network after with the epoch's training loss
  and accuracy), and the scoring of a network on a split (loss, accuracy).
\<close>

type_synonym optimizer_epoch = "int \<Rightarrow> split \<Rightarrow> network \<Rightarrow> network \<times> real \<times> real"

type_synonym scorer = "network \<Rightarrow> split \<Rightarrow> real \<times> real"

definition output_dim :: "network \<Rightarrow> nat" where
  "output_dim net = (if layers net = [] then input_dim net else units (last (layers net)))"

text \<open>
  A split fits a network when it pairs as many label rows as feature rows, every feature
  row has the input's width and every label row the output's.
\<close>

definition shapes_ok :: "network \<Rightarrow> split \<Rightarrow> bool" where
  "shapes_ok net d =
     (length (fst d) = length (snd d)
      \<and> list_all (\<lambda>x. length x = input_dim net) (fst d)
      \<and> list_all (\<lambda>y. length y = output_dim net) (snd d))"

text \<open>The framework's history callback: each epoch's values are appended under their names.\<close>

definition on_epoch_end :: "history \<Rightarrow> (string \<times> real) list \<Rightarrow> history" where
  "on_epoch_end h logs =
     fold (\<lambda>(k, v) h. h(k \<mapsto> (case h k of None \<Rightarrow> [] | Some vs \<Rightarrow> vs) @ [v])) logs h"

text \<open>
  Modelled from the spec: the training loop ("runs the underlying minibatch
  stochastic-gradient training loop for the given number of epochs, updating network
  parameters in place", "a per-epoch history of loss/accuracy on a training split and a
  held-out validation split"). The metric names are the four that \<^verbatim>\<open>plot_history\<close> reads.
\<close>

fun fit_loop ::
  "optimizer_epoch \<Rightarrow> scorer \<Rightarrow> split \<Rightarrow> int \<Rightarrow> split \<Rightarrow> nat \<Rightarrow> history \<times> network
   \<Rightarrow> history \<times> network" where
  "fit_loop opt sc tr bs dv 0 (h, net) = (h, net)"
| "fit_loop opt sc tr bs dv (Suc k) (h, net) =
     (let (net', l, a) = opt bs tr net;
          (vl, va) = sc net' dv;
          h' = on_epoch_end h [(''loss'', l), (''acc'', a), (''val_loss'', vl), (''val_acc'', va)]
      in fit_loop opt sc tr bs dv k (h', net'))"

text \<open>
  Modelled from the spec: \<^verbatim>\<open>fit\<close>. "Any error (shape mismatch ...) propagates unhandled";
  otherwise the loop runs \<^verbatim>\<open>epochs\<close> times (not at all for a count below one) on the object
  itself and the history of the run is returned.
\<close>

definition keras_fit ::
  "optimizer_epoch \<Rightarrow> scorer \<Rightarrow> world \<Rightarrow> ref \<Rightarrow> split \<Rightarrow> int \<Rightarrow> int \<Rightarrow> split
   \<Rightarrow> error + (history \<times> world)" where
  "keras_fit opt sc w m tr bs epochs dv =
     (if \<not> shapes_ok (heap w m) tr then Inl (ValueError ''training data of another shape'')
      else if \<not> shapes_ok (heap w m) dv then Inl (ValueError ''validation data of another shape'')
      else let (h, net') = fit_loop opt sc tr bs dv (nat epochs) (Map.empty, heap w m)
           in Inr (h, w\<lparr>heap := (heap w)(m := net')\<rparr>))"

text \<open>
  Modelled from the spec: \<^verbatim>\<open>evaluate\<close> ("scalar loss and scalar accuracy computed by one
  forward pass over the test split with no parameter updates").
\<close>

definition keras_evaluate :: "scorer \<Rightarrow> world \<Rightarrow> ref \<Rightarrow> split \<Rightarrow> error + (real \<times> real)" where
  "keras_evaluate sc w m d =
     (if shapes_ok (heap w m) d then Inr (sc (heap w m) d)
      else Inl (ValueError ''test data of another shape''))"

text \<open>
  Modelled from the spec: the scoring that \<^verbatim>\<open>build\<close> asks for, "categorical cross-entropy" as the
  loss and accuracy as the metric, each averaged over the samples of the split. The
  cross-entropy of a label row and an output row is minus the sum of label times logarithm
  of output; a sample counts as accurate when label and output have their largest entry at
  the same place (the first one, if several are largest). Over no samples at all the
  average is taken to be 0; the spec says nothing about an empty split.
\<close>

definition categorical_crossentropy :: "real list \<Rightarrow> real list \<Rightarrow> real" where
  "categorical_crossentropy y p = - sum_list (map2 (\<lambda>t q. t * ln q) y p)"

definition argmax :: "real list \<Rightarrow> nat" where
  "argmax xs = (if xs = [] then 0 else length (takeWhile (\<lambda>x. x \<noteq> Max (set xs)) xs))"

definition categorical_accuracy :: "real list \<Rightarrow> real list \<Rightarrow> real" where
  "categorical_accuracy y p = (if argmax y = argmax p then 1 else 0)"

definition mean :: "real list \<Rightarrow> real" where
  "mean xs = (if xs = [] then 0 else sum_list xs / real (length xs))"

definition keras_score :: scorer where
  "keras_score net d =
     (let outputs = map (forward net) (fst d)
      in (mean (map2 categorical_crossentropy (snd d) outputs),
          mean (map2 categorical_accuracy (snd d) outputs)))"

subsection \<open>Persistence\<close>

text \<open>
  Modelled from the spec: saving "writes the current network's full state" to a single
  file; loading "reads such a file back into an in-memory network", a new object. A missing
  file is an error of the file system.
\<close>

definition keras_save :: "world \<Rightarrow> ref \<Rightarrow> string \<Rightarrow> world" where
  "keras_save w m path = w\<lparr>fs := (fs w)(path \<mapsto> heap w m), written := written w @ [path]\<rparr>"

definition keras_load_model :: "world \<Rightarrow> string \<Rightarrow> error + (ref \<times> world)" where
  "keras_load_model w path =
     (case fs w path of
        None \<Rightarrow> Inl (OSError path)
      | Some net \<Rightarrow>
          Inr (next_ref w, w\<lparr>heap := (heap w)(next_ref w := net), next_ref := next_ref w + 1\<rparr>))"

subsection \<open>Plotting\<close>

text \<open>
  The calls of the plotting library, in the order issued. Its \<^verbatim>\<open>plot\<close> draws \<open>y\<close> against \<open>x\<close>
  and raises a \<^verbatim>\<open>ValueError\<close> when the two differ in length.
\<close>

datatype plt_call =
    Subplot nat nat nat
  | Plot "nat list" "real list" string string
  | Title string
  | Xlabel string
  | Ylabel string
  | Legend
  | Subplots_adjust
  | Show

definition plt_plot ::
  "plt_call list \<Rightarrow> nat list \<Rightarrow> real list \<Rightarrow> string \<Rightarrow> string \<Rightarrow> error + plt_call list" where
  "plt_plot fig x y fmt label =
     (if length x = length y then Inr (fig @ [Plot x y fmt label])
      else Inl (ValueError ''x and y must have same first dimension''))"

section \<open>The class Model\<close>

record Model =
  model :: ref
  train_history :: "history option"
  model_dir :: string

text \<open>Sequencing of steps that may raise.\<close>

definition bind :: "error + 'a \<Rightarrow> ('a \<Rightarrow> error + 'b) \<Rightarrow> error + 'b" where
  "bind r f = (case r of Inl e \<Rightarrow> Inl e | Inr v \<Rightarrow> f v)"

text \<open>
  \<^verbatim>\<open>build\<close>: the architecture. \<^verbatim>\<open>build_network\<close> is the body up to the assignment of
  \<^verbatim>\<open>self.model\<close>, which \<^verbatim>\<open>__init__\<close> runs before the object has its other attributes; \<open>init l\<close>
  is the draw of the initial weights of layer \<open>l\<close>.
\<close>

definition build_network :: "(nat \<Rightarrow> nat \<Rightarrow> nat \<Rightarrow> real) \<Rightarrow> world \<Rightarrow> ref \<times> world" where
  "build_network init w =
     (let input = Input 10000;
          l = Dense (init 0) 64 Relu input;
          l = Dense (init 1) 64 Relu l;
          output = Dense (init 2) 46 Softmax l;
          (m, w) = keras_Model w input output;
          w = keras_compile w m ''rmsprop'' Categorical_crossentropy [''accuracy'']
      in (m, w))"

definition build :: "(nat \<Rightarrow> nat \<Rightarrow> nat \<Rightarrow> real) \<Rightarrow> world \<Rightarrow> Model \<Rightarrow> ref \<times> world \<times> Model" where
  "build init w self =
     (let (m, w) = build_network init w;
          self = self\<lparr>model := m\<rparr>
      in (model self, w, self))"

text \<open>\<^verbatim>\<open>__init__\<close>; \<open>file\<close> is the script's own path, \<^verbatim>\<open>__file__\<close>.\<close>

definition init :: "string \<Rightarrow> (nat \<Rightarrow> nat \<Rightarrow> nat \<Rightarrow> real) \<Rightarrow> world \<Rightarrow> world \<times> Model" where
  "init file ini w =
     (let (m, w) = build_network ini w
      in (w, \<lparr>model = m, train_history = None,
              model_dir = os_path_join (os_path_dirname file) ''model/''\<rparr>))"

definition save :: "world \<Rightarrow> Model \<Rightarrow> ref \<Rightarrow> string \<Rightarrow> world" where
  "save w self m dir =
     (let f_name = name (heap w m) @ ''.h5''
      in keras_save w m (os_path_join dir f_name))"

definition load :: "world \<Rightarrow> Model \<Rightarrow> string \<Rightarrow> string \<Rightarrow> error + (ref \<times> world \<times> Model)" where
  "load w self dir model_name =
     (let model_path = os_path_join dir model_name
      in bind (keras_load_model w model_path) (\<lambda>(m, w).
           let self = self\<lparr>model := m\<rparr>
           in Inr (model self, w, self)))"

definition print :: "world \<Rightarrow> string \<Rightarrow> world" where
  "print w s = w\<lparr>stdout := stdout w @ [s]\<rparr>"

definition train ::
  "optimizer_epoch \<Rightarrow> scorer \<Rightarrow> world \<Rightarrow> Model \<Rightarrow> split \<Rightarrow> split \<Rightarrow> int option \<Rightarrow> int option
   \<Rightarrow> bool option \<Rightarrow> error + ((history \<times> ref) \<times> world \<times> Model)" where
  "train opt sc w self train_set dev_set epochs batch_size save_model =
     (let epochs = default 1 epochs;
          batch_size = default 512 batch_size;
          save_model = default True save_model;
          (train_data, train_labels) = train_set;
          (dev_data, dev_labels) = dev_set
      in bind (keras_fit opt sc w (model self) (train_data, train_labels) batch_size epochs
                 (dev_data, dev_labels)) (\<lambda>(h, w).
           let self = self\<lparr>train_history := Some h\<rparr>;
               w = (if save_model then save w self (model self) (model_dir self) else w);
               w = print w (''Model trained successfully and saved in '/model'' @ [CHR 0x27])
           in Inr ((h, model self), w, self)))"

definition lookup :: "history \<Rightarrow> string \<Rightarrow> error + real list" where
  "lookup h k = (case h k of None \<Rightarrow> Inl (KeyError k) | Some v \<Rightarrow> Inr v)"

definition plot_history :: "history \<Rightarrow> error + plt_call list" where
  "plot_history history =
     bind (lookup history ''loss'') (\<lambda>loss.
     bind (lookup history ''val_loss'') (\<lambda>val_loss.
     bind (lookup history ''acc'') (\<lambda>acc.
     bind (lookup history ''val_acc'') (\<lambda>val_acc.
       let epochs = [1..<length loss + 1];
           fig = [Subplot 2 1 1]
       in bind (plt_plot fig epochs loss ''bo'' ''Training loss'') (\<lambda>fig.
          bind (plt_plot fig epochs val_loss ''b'' ''Validation loss'') (\<lambda>fig.
            let fig = fig @ [Title ''Training and validation loss'', Xlabel ''Epochs'',
                             Ylabel ''Loss'', Legend, Subplot 2 1 2]
            in bind (plt_plot fig epochs acc ''bo'' ''Training acc'') (\<lambda>fig.
               bind (plt_plot fig epochs val_acc ''b'' ''Validation acc'') (\<lambda>fig.
                 Inr (fig @ [Title ''Training and validation accuracy'', Xlabel ''Epochs'',
                             Ylabel ''Acc'', Legend, Subplots_adjust, Show])))))))))"

definition evaluate :: "scorer \<Rightarrow> world \<Rightarrow> Model \<Rightarrow> split \<Rightarrow> error + (real \<times> real)" where
  "evaluate sc w self test_set =
     (let (test_data, test_labels) = test_set
      in bind (keras_evaluate sc w (model self) (test_data, test_labels)) (\<lambda>(loss, acc).
           Inr (loss, acc)))"

text \<open>
  \<^verbatim>\<open>predict\<close> is the one method that can raise after it has changed something: the network is
  loaded and assigned before the framework sees the input. Its exception therefore comes
  with the world and the object as they are when it is raised. In the other methods nothing
  has changed when they raise.
\<close>

definition predict ::
  "world \<Rightarrow> Model \<Rightarrow> real list list \<Rightarrow> string option
   \<Rightarrow> (error \<times> world \<times> Model) + (real list list \<times> world \<times> Model)" where
  "predict w self input load_model_name =
     (case (if truthy load_model_name
            then (case load w self (model_dir self) (the load_model_name) of
                    Inl e \<Rightarrow> Inl (e, w, self)
                  | Inr (m, w, self) \<Rightarrow> Inr (w, self\<lparr>model := m\<rparr>))
            else Inr (w, self)) of
        Inl raised \<Rightarrow> Inl raised
      | Inr (w, self) \<Rightarrow>
          (case keras_predict (heap w (model self)) input of
             Inl e \<Rightarrow> Inl (e, w, self)
           | Inr output_probas \<Rightarrow> Inr (output_probas, w, self)))"

section \<open>States and values the theorems are stated with\<close>

text \<open>
  The world before the script has run: no network object, no file, nothing printed. Every
  reference holds an empty network until an object is created there.
\<close>

definition blank :: network where
  "blank = \<lparr>name = [], input_dim = 0, layers = [], optimizer = None, optimizer_state = [],
             loss = None, metrics = []\<rparr>"

definition boot :: world where
  "boot = \<lparr>heap = (\<lambda>_. blank), next_ref = 0, uid = 0, fs = Map.empty, written = [], stdout = []\<rparr>"

text \<open>
  A run used to exercise the theorems: the script lives at \<^verbatim>\<open>/repo/model.py\<close>, all initial
  weights are drawn as zero, the object is constructed in the empty world; one sample of
  the right shape; and the world after the object has saved its network into its own
  directory.
\<close>

definition demo :: "world \<times> Model" where
  "demo = init ''/repo/model.py'' (\<lambda>l j i. 0) boot"

definition sample :: split where
  "sample = ([replicate 10000 0], [replicate 46 0])"

text \<open>
  Two test splits of one sample for that network: one with a one-hot label, one whose label
  has the entry -1.
\<close>

definition one_hot_sample :: split where
  "one_hot_sample = ([replicate 10000 0], [1 # replicate 45 0])"

definition negative_sample :: split where
  "negative_sample = ([replicate 10000 0], [- 1 # replicate 45 0])"

definition saved :: world where
  "saved = save (fst demo) (snd demo) (model (snd demo)) (model_dir (snd demo))"

text \<open>
  What the history callback has recorded after \<open>n\<close> epochs: under each of the four metric
  names a sequence of \<open>n\<close> values (no entry before the first epoch), and nothing under any
  other name.
\<close>

definition recorded :: "nat \<Rightarrow> history \<Rightarrow> string \<Rightarrow> bool" where
  "recorded n h k = (case h k of None \<Rightarrow> n = 0 | Some v \<Rightarrow> 0 < n \<and> length v = n)"

definition epochs_recorded :: "nat \<Rightarrow> history \<Rightarrow> bool" where
  "epochs_recorded n h =
     (recorded n h ''loss'' \<and> recorded n h ''acc'' \<and> recorded n h ''val_loss''
      \<and> recorded n h ''val_acc''
      \<and> (\<forall>k. k \<noteq> ''loss'' \<and> k \<noteq> ''acc'' \<and> k \<noteq> ''val_loss'' \<and> k \<noteq> ''val_acc'' \<longrightarrow> h k = None))"

text \<open>
  The calls \<^verbatim>\<open>plot_history\<close> issues (lines 89 to 106) when none of them raises: the loss chart
  and the accuracy chart, each with a training and a validation curve over the epochs
  \<open>1, ..., len(loss)\<close>.
\<close>

definition two_charts :: "real list \<Rightarrow> real list \<Rightarrow> real list \<Rightarrow> real list \<Rightarrow> plt_call list" where
  "two_charts l vl a va =
     [Subplot 2 1 1,
      Plot [1..<length l + 1] l ''bo'' ''Training loss'',
      Plot [1..<length l + 1] vl ''b'' ''Validation loss'',
      Title ''Training and validation loss'', Xlabel ''Epochs'', Ylabel ''Loss'', Legend,
      Subplot 2 1 2,
      Plot [1..<length l + 1] a ''bo'' ''Training acc'',
      Plot [1..<length l + 1] va ''b'' ''Validation acc'',
      Title ''Training and validation accuracy'', Xlabel ''Epochs'', Ylabel ''Acc'', Legend,
      Subplots_adjust, Show]"

text \<open>
  Two histories with all four keys: one whose validation loss has one value fewer than its
  loss, one whose sequences all have two values.
\<close>

definition ragged_history :: history where
  "ragged_history = [''loss'' \<mapsto> [2, 1], ''val_loss'' \<mapsto> [3], ''acc'' \<mapsto> [0, 1], ''val_acc'' \<mapsto> [0, 1]]"

definition aligned_history :: history where
  "aligned_history = [''loss'' \<mapsto> [2, 1], ''val_loss'' \<mapsto> [3, 2], ''acc'' \<mapsto> [0, 1], ''val_acc'' \<mapsto> [0, 1]]"

section \<open>The forward pass and the network that build constructs\<close>

lemma sum_list_div: "sum_list (map (\<lambda>z. f z / (c::real)) zs) = sum_list (map f zs) / c"
  by (induction zs) (simp_all add: add_divide_distrib)

lemma sum_exp_nonneg: "0 \<le> sum_list (map exp (zs::real list))"
  by (rule sum_list_nonneg) auto

lemma sum_exp_pos: "zs \<noteq> [] \<Longrightarrow> 0 < sum_list (map exp (zs::real list))"
proof (cases zs)
  case Nil
  assume "zs \<noteq> []"
  with Nil show ?thesis by simp
next
  case (Cons a as)
  have "0 < exp a + sum_list (map exp as)"
    using sum_exp_nonneg[of as] exp_gt_zero[of a] by linarith
  with Cons show ?thesis by simp
qed

lemma softmax_sum: "zs \<noteq> [] \<Longrightarrow> sum_list (softmax zs) = 1"
  using sum_exp_pos[of zs] by (simp add: softmax_def sum_list_div)

lemma softmax_nonneg: "v \<in> set (softmax zs) \<Longrightarrow> 0 \<le> v"
  using sum_exp_nonneg[of zs] by (auto simp: softmax_def)

lemma length_softmax: "length (softmax zs) = length zs"
  by (simp add: softmax_def)

lemma length_dense_call:
  "length (dense_call l x) = min (length (kernel l)) (length (bias l))"
  by (cases "activation l") (simp_all add: dense_call_def length_softmax)

lemma forward_snoc: "layers net = ls @ [l] \<Longrightarrow> forward net x = dense_call l (fold dense_call ls x)"
  by (simp add: forward_def)

lemma softmax_output:
  assumes "layers net = ls @ [l]" and "activation l = Softmax"
    and "length (kernel l) = n" and "length (bias l) = n" and "0 < n"
  shows "length (forward net x) = n \<and> (\<forall>v\<in>set (forward net x). 0 \<le> v) \<and> sum_list (forward net x) = 1"
proof -
  define zs where "zs = map2 (\<lambda>row b. dot row (fold dense_call ls x) + b) (kernel l) (bias l)"
  have len: "length zs = n" using assms by (simp add: zs_def)
  have fw: "forward net x = softmax zs"
    using assms(1,2) by (simp add: forward_snoc dense_call_def zs_def)
  from len \<open>0 < n\<close> have "zs \<noteq> []" by auto
  then show ?thesis using len by (auto simp: fw length_softmax softmax_sum dest: softmax_nonneg)
qed

lemma build_network_net:
  "build_network ini w = (m, w') \<Longrightarrow>
     m = next_ref w \<and> next_ref w' = next_ref w + 1 \<and> uid w' = uid w + 1 \<and>
     fs w' = fs w \<and> written w' = written w \<and> stdout w' = stdout w \<and>
     (\<forall>r. r \<noteq> m \<longrightarrow> heap w' r = heap w r) \<and>
     name (heap w' m) = ''model_'' @ str (uid w + 1) \<and>
     input_dim (heap w' m) = 10000 \<and>
     layers (heap w' m) = snd (Dense (ini 2) 46 Softmax (Dense (ini 1) 64 Relu (Dense (ini 0) 64 Relu (Input 10000)))) \<and>
     optimizer (heap w' m) = Some ''rmsprop'' \<and>
     loss (heap w' m) = Some Categorical_crossentropy \<and>
     metrics (heap w' m) = [''accuracy'']"
  by (auto simp: build_network_def keras_Model_def keras_compile_def Let_def Input_def)

lemma Dense_layers:
  "snd (Dense i n act t) = snd t @ [\<lparr>units = n, activation = act,
                   kernel = map (\<lambda>j. map (\<lambda>k. i j k) [0..<fst t]) [0..<n],
                   bias = replicate n 0\<rparr>]"
  "fst (Dense i n act t) = n"
  by (simp_all add: Dense_def)

lemma build_layers:
  assumes "build_network ini w = (m, w')"
  shows "\<exists>l1 l2 l3. layers (heap w' m) = [l1, l2] @ [l3] \<and>
           units l1 = 64 \<and> units l2 = 64 \<and> units l3 = 46 \<and>
           activation l1 = Relu \<and> activation l2 = Relu \<and> activation l3 = Softmax \<and>
           length (kernel l1) = 64 \<and> length (kernel l2) = 64 \<and> length (kernel l3) = 46 \<and>
           length (bias l1) = 64 \<and> length (bias l2) = 64 \<and> length (bias l3) = 46 \<and>
           list_all (\<lambda>row. length row = 10000) (kernel l1) \<and>
           list_all (\<lambda>row. length row = 64) (kernel l2) \<and>
           list_all (\<lambda>row. length row = 64) (kernel l3)"
proof -
  from build_network_net[OF assms]
  have "layers (heap w' m) = snd (Dense (ini 2) 46 Softmax (Dense (ini 1) 64 Relu
           (Dense (ini 0) 64 Relu (Input 10000))))"
    by blast
  then show ?thesis
    by (simp add: Dense_layers Input_def list_all_iff)
qed

lemma predict_None:
  "predict w self xs None = (case keras_predict (heap w (model self)) xs of
      Inl e \<Rightarrow> Inl (e, w, self) | Inr ps \<Rightarrow> Inr (ps, w, self))"
  by (simp add: predict_def)

text \<open>
  C1. \<^verbatim>\<open>build\<close> installs and returns a network of input width 10000 with two hidden dense
  layers of 64 units and rectified-linear activation and an output layer of 46 units with
  softmax activation, compiled with the rmsprop optimizer, categorical cross-entropy and the
  accuracy metric; on every batch of rows of width 10000 the prediction succeeds, changes
  nothing, and gives one row per input row, each with 46 entries that are non-negative and
  sum to 1 (in real arithmetic).
\<close>

theorem build_architecture:
  assumes "build ini w self = (m, w', self')"
  shows "model self' = m \<and> input_dim (heap w' m) = 10000
     \<and> map units (layers (heap w' m)) = [64, 64, 46]
     \<and> map activation (layers (heap w' m)) = [Relu, Relu, Softmax]
     \<and> optimizer (heap w' m) = Some ''rmsprop''
     \<and> loss (heap w' m) = Some Categorical_crossentropy
     \<and> metrics (heap w' m) = [''accuracy'']
     \<and> (\<forall>xs. list_all (\<lambda>x. length x = 10000) xs \<longrightarrow>
          (\<exists>ps. predict w' self' xs None = Inr (ps, w', self') \<and> length ps = length xs
             \<and> list_all (\<lambda>p. length p = 46 \<and> list_all (\<lambda>v. 0 \<le> v) p \<and> sum_list p = 1) ps))"
proof -
  obtain m0 w0 where bn: "build_network ini w = (m0, w0)" by (cases "build_network ini w")
  with assms have eqs: "m = m0" "w' = w0" "self' = self\<lparr>model := m0\<rparr>"
    by (auto simp: build_def)
  note net = build_network_net[OF bn]
  from net have idim: "input_dim (heap w0 m0) = 10000" by blast
  from net have cfg: "optimizer (heap w0 m0) = Some ''rmsprop''"
    "loss (heap w0 m0) = Some Categorical_crossentropy" "metrics (heap w0 m0) = [''accuracy'']"
    by blast+
  from build_layers[OF bn] obtain l1 l2 l3 where
    ls: "layers (heap w0 m0) = [l1, l2] @ [l3]"
    and u: "units l1 = 64" "units l2 = 64" "units l3 = 46"
    and a: "activation l1 = Relu" "activation l2 = Relu" "activation l3 = Softmax"
    and k: "length (kernel l3) = 46" "length (bias l3) = 46"
    by blast
  have out: "length (forward (heap w0 m0) x) = 46
      \<and> (\<forall>v\<in>set (forward (heap w0 m0) x). 0 \<le> v) \<and> sum_list (forward (heap w0 m0) x) = 1" for x
    by (rule softmax_output[OF ls a(3) k]) simp
  have pr: "list_all (\<lambda>x. length x = 10000) xs \<Longrightarrow>
      predict w0 (self\<lparr>model := m0\<rparr>) xs None
        = Inr (map (forward (heap w0 m0)) xs, w0, self\<lparr>model := m0\<rparr>)" for xs
    using idim by (simp add: predict_None keras_predict_def)
  have dist: "list_all (\<lambda>p. length p = 46 \<and> list_all (\<lambda>v. 0 \<le> v) p \<and> sum_list p = 1)
      (map (forward (heap w0 m0)) xs)" for xs
    using out by (simp add: list_all_iff)
  show ?thesis
    unfolding eqs using idim cfg ls u a pr dist by simp
qed

theorem build_architecture_witness:
  "list_all (\<lambda>x. length x = 10000) [replicate 10000 (0::real)] \<and>
   (\<exists>ps. predict (fst (snd (build (\<lambda>l j i. 0) boot \<lparr>model = 0, train_history = None, model_dir = []\<rparr>)))
             (snd (snd (build (\<lambda>l j i. 0) boot \<lparr>model = 0, train_history = None, model_dir = []\<rparr>)))
             [replicate 10000 0] None
         = Inr (ps, snd (build (\<lambda>l j i. 0) boot \<lparr>model = 0, train_history = None, model_dir = []\<rparr>))
       \<and> length ps = 1
       \<and> list_all (\<lambda>p. length p = 46 \<and> list_all (\<lambda>v. 0 \<le> v) p \<and> sum_list p = 1) ps)"
proof -
  let ?r = "build (\<lambda>l j i. 0) boot \<lparr>model = 0, train_history = None, model_dir = []\<rparr>"
  have b: "?r = (fst ?r, fst (snd ?r), snd (snd ?r))" by simp
  have h: "list_all (\<lambda>x. length x = 10000) [replicate 10000 (0::real)]" by simp
  from build_architecture[OF b] h
  have "\<exists>ps. predict (fst (snd ?r)) (snd (snd ?r)) [replicate 10000 0] None
            = Inr (ps, fst (snd ?r), snd (snd ?r))
          \<and> length ps = length [replicate 10000 (0::real)]
          \<and> list_all (\<lambda>p. length p = 46 \<and> list_all (\<lambda>v. 0 \<le> v) p \<and> sum_list p = 1) ps"
    by blast
  with h show ?thesis by simp
qed

section \<open>What each method does to the world and to the object\<close>

lemma save_eq:
  "save w self m dir =
     w\<lparr>fs := (fs w)(os_path_join dir (name (heap w m) @ ''.h5'') \<mapsto> heap w m),
       written := written w @ [os_path_join dir (name (heap w m) @ ''.h5'')]\<rparr>"
  by (simp add: save_def keras_save_def Let_def)

lemma load_eq:
  "load w self dir model_name =
     (case fs w (os_path_join dir model_name) of
        None \<Rightarrow> Inl (OSError (os_path_join dir model_name))
      | Some net \<Rightarrow>
          Inr (next_ref w, w\<lparr>heap := (heap w)(next_ref w := net), next_ref := next_ref w + 1\<rparr>,
               self\<lparr>model := next_ref w\<rparr>))"
  by (simp add: load_def keras_load_model_def bind_def Let_def split: option.split)

lemma predict_Some:
  "s \<noteq> [] \<Longrightarrow> predict w self xs (Some s) =
     (case fs w (os_path_join (model_dir self) s) of
        None \<Rightarrow> Inl (OSError (os_path_join (model_dir self) s), w, self)
      | Some net \<Rightarrow>
          (case keras_predict net xs of
             Inl e \<Rightarrow> Inl (e, w\<lparr>heap := (heap w)(next_ref w := net), next_ref := next_ref w + 1\<rparr>,
                          self\<lparr>model := next_ref w\<rparr>)
           | Inr ps \<Rightarrow> Inr (ps, w\<lparr>heap := (heap w)(next_ref w := net), next_ref := next_ref w + 1\<rparr>,
                           self\<lparr>model := next_ref w\<rparr>)))"
  by (simp add: predict_def load_eq split: option.split sum.split)

lemma predict_falsy:
  "\<not> truthy nm \<Longrightarrow> predict w self xs nm =
     (case keras_predict (heap w (model self)) xs of
        Inl e \<Rightarrow> Inl (e, w, self) | Inr ps \<Rightarrow> Inr (ps, w, self))"
  by (simp add: predict_def)

lemma os_path_join_plain:
  "b = [] \<or> hd b \<noteq> CHR ''/'' \<Longrightarrow>
     os_path_join a b = (if a = [] \<or> last a = CHR ''/'' then a else a @ ''/'') @ b"
  by (auto simp: os_path_join_def)

lemma train_eq:
  "train opt sc w self tr dv ep bs sv =
     (case keras_fit opt sc w (model self) tr (default 512 bs) (default 1 ep) dv of
        Inl e \<Rightarrow> Inl e
      | Inr (h, w1) \<Rightarrow>
          Inr ((h, model self),
               print (if default True sv
                      then save w1 (self\<lparr>train_history := Some h\<rparr>) (model self) (model_dir self)
                      else w1)
                 (''Model trained successfully and saved in '/model'' @ [CHR 0x27]),
               self\<lparr>train_history := Some h\<rparr>))"
  by (cases tr; cases dv) (simp add: train_def bind_def Let_def split: sum.split prod.split)

lemma print_fields:
  "heap (print w s) = heap w" "fs (print w s) = fs w" "written (print w s) = written w"
  "next_ref (print w s) = next_ref w" "uid (print w s) = uid w"
  by (simp_all add: print_def)

lemma save_fields:
  "heap (save w self m dir) = heap w" "next_ref (save w self m dir) = next_ref w"
  "uid (save w self m dir) = uid w" "stdout (save w self m dir) = stdout w"
  by (simp_all add: save_eq)

lemma build_eq:
  "build ini w self = (m, w', self') \<Longrightarrow>
     build_network ini w = (m, w') \<and> self' = self\<lparr>model := m\<rparr>"
  by (auto simp: build_def split: prod.splits)

lemma str_digit: "n < 10 \<Longrightarrow> str n = [''0123456789'' ! n]"
  by (subst str.simps) simp

lemma init_built:
  "build_network ini w = (model (snd (init script ini w)), fst (init script ini w))"
  by (simp add: init_def split: prod.split)

lemma init_fields:
  "train_history (snd (init script ini w)) = None"
  "model_dir (snd (init script ini w)) = os_path_join (os_path_dirname script) ''model/''"
  by (simp_all add: init_def split: prod.split)

lemma init_network:
  "model (snd (init script ini w)) = next_ref w"
  "next_ref (fst (init script ini w)) = next_ref w + 1"
  "fs (fst (init script ini w)) = fs w"
  "written (fst (init script ini w)) = written w"
  "name (heap (fst (init script ini w)) (next_ref w)) = ''model_'' @ str (uid w + 1)"
  "input_dim (heap (fst (init script ini w)) (next_ref w)) = 10000"
  "output_dim (heap (fst (init script ini w)) (next_ref w)) = 46"
proof -
  note n = build_network_net[OF init_built[of ini w script]]
  from n show m: "model (snd (init script ini w)) = next_ref w" by blast
  from n show "next_ref (fst (init script ini w)) = next_ref w + 1" by blast
  from n show "fs (fst (init script ini w)) = fs w" by blast
  from n show "written (fst (init script ini w)) = written w" by blast
  from n show "name (heap (fst (init script ini w)) (next_ref w)) = ''model_'' @ str (uid w + 1)"
    unfolding m by blast
  from n show "input_dim (heap (fst (init script ini w)) (next_ref w)) = 10000"
    unfolding m by blast
  from n have "layers (heap (fst (init script ini w)) (next_ref w))
      = snd (Dense (ini 2) 46 Softmax (Dense (ini 1) 64 Relu (Dense (ini 0) 64 Relu (Input 10000))))"
    unfolding m by blast
  then show "output_dim (heap (fst (init script ini w)) (next_ref w)) = 46"
    by (simp add: output_dim_def Dense_layers)
qed

section \<open>The history of a training run\<close>

lemma on_epoch_end_four:
  "on_epoch_end h [(''loss'', l), (''acc'', a), (''val_loss'', vl), (''val_acc'', va)] =
     h(''loss'' \<mapsto> (case h ''loss'' of None \<Rightarrow> [] | Some vs \<Rightarrow> vs) @ [l],
       ''acc'' \<mapsto> (case h ''acc'' of None \<Rightarrow> [] | Some vs \<Rightarrow> vs) @ [a],
       ''val_loss'' \<mapsto> (case h ''val_loss'' of None \<Rightarrow> [] | Some vs \<Rightarrow> vs) @ [vl],
       ''val_acc'' \<mapsto> (case h ''val_acc'' of None \<Rightarrow> [] | Some vs \<Rightarrow> vs) @ [va])"
  by (simp add: on_epoch_end_def)

lemma recorded_append:
  "recorded n h k \<Longrightarrow> length ((case h k of None \<Rightarrow> [] | Some vs \<Rightarrow> vs) @ [v]) = Suc n"
  by (simp add: recorded_def split: option.splits)

lemma epochs_recorded_step:
  assumes "epochs_recorded n h"
  shows "epochs_recorded (Suc n)
           (on_epoch_end h [(''loss'', l), (''acc'', a), (''val_loss'', vl), (''val_acc'', va)])"
proof -
  let ?h = "on_epoch_end h [(''loss'', l), (''acc'', a), (''val_loss'', vl), (''val_acc'', va)]"
  from assms have r: "recorded n h ''loss''" "recorded n h ''acc''" "recorded n h ''val_loss''"
    "recorded n h ''val_acc''"
    by (simp_all add: epochs_recorded_def)
  have 1: "recorded (Suc n) ?h ''loss''"
    using recorded_append[OF r(1)] by (simp add: on_epoch_end_four recorded_def)
  have 2: "recorded (Suc n) ?h ''acc''"
    using recorded_append[OF r(2)] by (simp add: on_epoch_end_four recorded_def)
  have 3: "recorded (Suc n) ?h ''val_loss''"
    using recorded_append[OF r(3)] by (simp add: on_epoch_end_four recorded_def)
  have 4: "recorded (Suc n) ?h ''val_acc''"
    using recorded_append[OF r(4)] by (simp add: on_epoch_end_four recorded_def)
  have 5: "k \<noteq> ''loss'' \<and> k \<noteq> ''acc'' \<and> k \<noteq> ''val_loss'' \<and> k \<noteq> ''val_acc'' \<longrightarrow> ?h k = None" for k
    using assms by (simp add: on_epoch_end_four epochs_recorded_def)
  from 1 2 3 4 5 show ?thesis unfolding epochs_recorded_def by blast
qed

lemma fit_loop_recorded:
  "epochs_recorded n h \<Longrightarrow> epochs_recorded (n + k) (fst (fit_loop opt sc tr bs dv k (h, net)))"
proof (induction k arbitrary: n h net)
  case 0
  then show ?case by simp
next
  case (Suc k)
  obtain net' l a where o: "opt bs tr net = (net', l, a)" by (cases "opt bs tr net")
  obtain vl va where s: "sc net' dv = (vl, va)" by (cases "sc net' dv")
  from Suc.IH[OF epochs_recorded_step[OF Suc.prems], of l a vl va net']
  show ?case by (simp add: o s)
qed

lemma epochs_recorded_empty: "epochs_recorded 0 Map.empty"
  by (simp add: epochs_recorded_def recorded_def)

lemma recorded_length:
  "recorded n h k \<Longrightarrow> h k = Some v \<Longrightarrow> length v = n"
  by (simp add: recorded_def)

lemma epochs_recorded_keys:
  assumes "epochs_recorded n h" and "h k = Some v"
  shows "k = ''loss'' \<or> k = ''acc'' \<or> k = ''val_loss'' \<or> k = ''val_acc''"
proof (rule ccontr)
  assume "\<not> ?thesis"
  then have "k \<noteq> ''loss'' \<and> k \<noteq> ''acc'' \<and> k \<noteq> ''val_loss'' \<and> k \<noteq> ''val_acc''" by simp
  moreover from assms(1)
  have "k \<noteq> ''loss'' \<and> k \<noteq> ''acc'' \<and> k \<noteq> ''val_loss'' \<and> k \<noteq> ''val_acc'' \<longrightarrow> h k = None"
    by (simp add: epochs_recorded_def)
  ultimately have "h k = None" by (rule rev_mp)
  with assms(2) show False by simp
qed

lemma epochs_recorded_recorded:
  assumes "epochs_recorded n h"
    and "k = ''loss'' \<or> k = ''acc'' \<or> k = ''val_loss'' \<or> k = ''val_acc''"
  shows "recorded n h k"
proof -
  from assms(1) have "recorded n h ''loss''" "recorded n h ''acc''"
    "recorded n h ''val_loss''" "recorded n h ''val_acc''"
    by (simp_all add: epochs_recorded_def)
  with assms(2) show ?thesis by (elim disjE) simp_all
qed

lemma epochs_recorded_length:
  assumes "epochs_recorded n h" and "h k = Some v"
  shows "length v = n"
  using recorded_length[OF epochs_recorded_recorded[OF assms(1) epochs_recorded_keys[OF assms]] assms(2)] .

lemma epochs_recorded_present:
  assumes "epochs_recorded n h" and "0 < n"
    and "k = ''loss'' \<or> k = ''acc'' \<or> k = ''val_loss'' \<or> k = ''val_acc''"
  shows "\<exists>v. h k = Some v \<and> length v = n"
proof -
  have "recorded n h k" using assms(1,3) by (rule epochs_recorded_recorded)
  with assms(2) show ?thesis by (cases "h k") (simp_all add: recorded_def)
qed

lemma keras_fit_ok:
  assumes "shapes_ok (heap w m) tr" and "shapes_ok (heap w m) dv"
  shows "keras_fit opt sc w m tr bs epochs dv =
           Inr (fst (fit_loop opt sc tr bs dv (nat epochs) (Map.empty, heap w m)),
                w\<lparr>heap := (heap w)(m := snd (fit_loop opt sc tr bs dv (nat epochs) (Map.empty, heap w m)))\<rparr>)"
  using assms by (simp add: keras_fit_def split: prod.split)

lemma keras_fit_Inr:
  assumes "keras_fit opt sc w m tr bs epochs dv = Inr (h, w')"
  shows "epochs_recorded (nat epochs) h \<and> shapes_ok (heap w m) tr \<and> shapes_ok (heap w m) dv
     \<and> next_ref w' = next_ref w \<and> uid w' = uid w \<and> fs w' = fs w \<and> written w' = written w
     \<and> stdout w' = stdout w \<and> (\<forall>r. r \<noteq> m \<longrightarrow> heap w' r = heap w r)"
proof -
  from assms have ok: "shapes_ok (heap w m) tr" "shapes_ok (heap w m) dv"
    by (simp_all add: keras_fit_def split: if_splits)
  from assms keras_fit_ok[OF ok, of opt sc bs epochs]
  have h: "h = fst (fit_loop opt sc tr bs dv (nat epochs) (Map.empty, heap w m))"
    and w': "w' = w\<lparr>heap := (heap w)(m := snd (fit_loop opt sc tr bs dv (nat epochs) (Map.empty, heap w m)))\<rparr>"
    by simp_all
  have "epochs_recorded (nat epochs) h"
    unfolding h using fit_loop_recorded[OF epochs_recorded_empty, of "nat epochs"] by simp
  then show ?thesis using ok by (simp add: w')
qed

lemma train_ok:
  assumes "shapes_ok (heap w (model self)) tr" and "shapes_ok (heap w (model self)) dv"
  shows "\<exists>h w'. train opt sc w self tr dv ep bs sv = Inr ((h, model self), w', self\<lparr>train_history := Some h\<rparr>)
      \<and> keras_fit opt sc w (model self) tr (default 512 bs) (default 1 ep) dv
          = Inr (h, w\<lparr>heap := heap w'\<rparr>)
      \<and> heap w' (model self)
          = snd (fit_loop opt sc tr (default 512 bs) dv (nat (default 1 ep)) (Map.empty, heap w (model self)))"
  by (simp add: train_eq keras_fit_ok[OF assms] print_fields save_fields)

lemma train_Inr:
  assumes "train opt sc w self tr dv ep bs sv = Inr ((h, m), w', self')"
  shows "\<exists>w1. keras_fit opt sc w (model self) tr (default 512 bs) (default 1 ep) dv = Inr (h, w1)
      \<and> m = model self \<and> self' = self\<lparr>train_history := Some h\<rparr>
      \<and> w' = print (if default True sv then save w1 self' (model self) (model_dir self) else w1)
                (''Model trained successfully and saved in '/model'' @ [CHR 0x27])"
  using assms by (auto simp: train_eq split: sum.splits)

section \<open>The example run\<close>

lemma dirname_example: "os_path_dirname ''/repo/model.py'' = ''/repo''"
  by (simp add: os_path_dirname_def)

lemma join_example: "os_path_join ''/repo'' ''model/'' = ''/repo/model/''"
  by (simp add: os_path_join_def)

lemma demo_facts:
  "model (snd demo) = 0" "next_ref (fst demo) = 1" "fs (fst demo) = Map.empty"
  "written (fst demo) = []" "name (heap (fst demo) 0) = ''model_1''"
  "input_dim (heap (fst demo) 0) = 10000" "output_dim (heap (fst demo) 0) = 46"
  "model_dir (snd demo) = ''/repo/model/''" "train_history (snd demo) = None"
  using init_network[of "''/repo/model.py''" "\<lambda>l j i. 0" boot]
    init_fields[of "''/repo/model.py''" "\<lambda>l j i. 0" boot]
  by (simp_all add: demo_def boot_def str_digit dirname_example join_example)

lemma demo_sample: "shapes_ok (heap (fst demo) (model (snd demo))) sample"
  by (simp add: shapes_ok_def sample_def demo_facts)

lemma demo_train:
  "\<exists>h w'. train (\<lambda>bs d n. (n, 0, 0)) (\<lambda>n d. (0, 0)) (fst demo) (snd demo) sample sample
             None None sv = Inr ((h, 0), w', (snd demo)\<lparr>train_history := Some h\<rparr>)
         \<and> heap w' 0 = heap (fst demo) 0"
  using train_ok[OF demo_sample demo_sample, of "\<lambda>bs d n. (n, 0, 0)" "\<lambda>n d. (0, 0)" None None sv]
  by (auto simp: demo_facts)

lemma saved_facts:
  "fs saved ''/repo/model/model_1.h5'' = Some (heap (fst demo) 0)"
  "heap saved = heap (fst demo)" "next_ref saved = 1"
  "written saved = [''/repo/model/model_1.h5'']"
  by (simp_all add: saved_def save_eq demo_facts os_path_join_def)

lemma join_model_1: "os_path_join ''/repo/model/'' ''model_1.h5'' = ''/repo/model/model_1.h5''"
  by (simp add: os_path_join_def)

lemma demo_load:
  "load saved (snd demo) ''/repo/model/'' ''model_1.h5''
     = Inr (1, saved\<lparr>heap := (heap saved)(1 := heap (fst demo) 0), next_ref := 2\<rparr>,
            (snd demo)\<lparr>model := 1\<rparr>)"
  by (simp add: load_eq join_model_1 saved_facts)

lemma demo_keras_predict:
  "keras_predict (heap (fst demo) 0) [replicate 10000 0]
     = Inr [forward (heap (fst demo) 0) (replicate 10000 0)]"
  by (simp add: keras_predict_def demo_facts)

lemma demo_predict_Some:
  "predict saved (snd demo) [replicate 10000 0] (Some ''model_1.h5'')
     = Inr ([forward (heap (fst demo) 0) (replicate 10000 0)],
            saved\<lparr>heap := (heap saved)(1 := heap (fst demo) 0), next_ref := 2\<rparr>,
            (snd demo)\<lparr>model := 1\<rparr>)"
  by (simp add: predict_Some demo_facts join_model_1 saved_facts demo_keras_predict)

lemma demo_keras_predict_raises:
  "keras_predict (heap (fst demo) 0) [[0]] = Inl (ValueError ''expected input of another shape'')"
  by (simp add: keras_predict_def demo_facts)

lemma demo_predict_raises:
  "predict saved (snd demo) [[0]] (Some ''model_1.h5'')
     = Inl (ValueError ''expected input of another shape'',
            saved\<lparr>heap := (heap saved)(1 := heap (fst demo) 0), next_ref := 2\<rparr>,
            (snd demo)\<lparr>model := 1\<rparr>)"
  by (simp add: predict_Some demo_facts join_model_1 saved_facts demo_keras_predict_raises)

lemma demo_predict_None_raises:
  "predict (fst demo) (snd demo) [[0]] None
     = Inl (ValueError ''expected input of another shape'', fst demo, snd demo)"
  by (simp add: predict_falsy demo_facts demo_keras_predict_raises)

lemma demo_predict_None:
  "predict (fst demo) (snd demo) [replicate 10000 0] None
     = Inr ([forward (heap (fst demo) 0) (replicate 10000 0)], fst demo, snd demo)"
  by (simp add: predict_falsy demo_facts demo_keras_predict)

section \<open>Plotting a history\<close>

lemma plot_history_KeyError:
  "h ''loss'' = None \<Longrightarrow> plot_history h = Inl (KeyError ''loss'')"
  "h ''loss'' = Some l \<Longrightarrow> h ''val_loss'' = None \<Longrightarrow> plot_history h = Inl (KeyError ''val_loss'')"
  "h ''loss'' = Some l \<Longrightarrow> h ''val_loss'' = Some vl \<Longrightarrow> h ''acc'' = None
     \<Longrightarrow> plot_history h = Inl (KeyError ''acc'')"
  "h ''loss'' = Some l \<Longrightarrow> h ''val_loss'' = Some vl \<Longrightarrow> h ''acc'' = Some a
     \<Longrightarrow> h ''val_acc'' = None \<Longrightarrow> plot_history h = Inl (KeyError ''val_acc'')"
  by (simp_all add: plot_history_def lookup_def bind_def)

lemma length_epochs: "length [Suc 0..<Suc n] = n"
  by simp

lemma plot_history_present:
  assumes "h ''loss'' = Some l" "h ''val_loss'' = Some vl" "h ''acc'' = Some a"
    "h ''val_acc'' = Some va"
  shows "plot_history h =
     (if length vl = length l \<and> length a = length l \<and> length va = length l
      then Inr (two_charts l vl a va)
      else Inl (ValueError ''x and y must have same first dimension''))"
proof (cases "length vl = length l \<and> length a = length l \<and> length va = length l")
  case True
  with assms show ?thesis
    by (simp add: plot_history_def lookup_def bind_def plt_plot_def two_charts_def Let_def
        length_epochs del: length_upt upt_Suc)
next
  case False
  with assms show ?thesis
    by (simp add: plot_history_def lookup_def bind_def plt_plot_def Let_def
        length_epochs del: length_upt upt_Suc) metis
qed

lemma ragged_keys:
  "ragged_history ''loss'' = Some [2, 1]" "ragged_history ''val_loss'' = Some [3]"
  "ragged_history ''acc'' = Some [0, 1]" "ragged_history ''val_acc'' = Some [0, 1]"
  by (simp_all add: ragged_history_def)

lemma aligned_keys:
  "aligned_history ''loss'' = Some [2, 1]" "aligned_history ''val_loss'' = Some [3, 2]"
  "aligned_history ''acc'' = Some [0, 1]" "aligned_history ''val_acc'' = Some [0, 1]"
  by (simp_all add: aligned_history_def)

section \<open>Persistence\<close>

text \<open>
  C6. \<^verbatim>\<open>save\<close> stores the full state of the network it is given in exactly one file, whose
  path is \<^verbatim>\<open>os.path.join\<close> of the directory and the network's name followed by \<^verbatim>\<open>.h5\<close>: that
  path now holds the network, every other path holds what it held, one write is recorded,
  and no network object changes. Unless the name starts with a slash the path is the
  directory, a slash where the directory does not already end in one (none for the empty
  directory), the name and \<^verbatim>\<open>.h5\<close>.
\<close>

theorem save_single_file:
  "fs (save w self m dir) (os_path_join dir (name (heap w m) @ ''.h5'')) = Some (heap w m)
   \<and> (\<forall>p. p \<noteq> os_path_join dir (name (heap w m) @ ''.h5'') \<longrightarrow> fs (save w self m dir) p = fs w p)
   \<and> written (save w self m dir) = written w @ [os_path_join dir (name (heap w m) @ ''.h5'')]
   \<and> heap (save w self m dir) = heap w
   \<and> (name (heap w m) = [] \<or> hd (name (heap w m)) \<noteq> CHR ''/'' \<longrightarrow>
        os_path_join dir (name (heap w m) @ ''.h5'')
          = (if dir = [] \<or> last dir = CHR ''/'' then dir else dir @ ''/'') @ name (heap w m) @ ''.h5'')"
proof -
  have "name (heap w m) = [] \<or> hd (name (heap w m)) \<noteq> CHR ''/'' \<Longrightarrow>
      name (heap w m) @ ''.h5'' = [] \<or> hd (name (heap w m) @ ''.h5'') \<noteq> CHR ''/''"
    by (cases "name (heap w m)") auto
  then show ?thesis
    by (simp add: save_eq os_path_join_plain)
qed

theorem save_single_file_witness:
  "name (heap (fst demo) 0) = ''model_1''
   \<and> fs (save (fst demo) (snd demo) 0 ''/repo/model'') ''/repo/model/model_1.h5''
       = Some (heap (fst demo) 0)
   \<and> fs (save (fst demo) (snd demo) 0 ''/repo/model'') ''/repo/model/model_2.h5'' = None
   \<and> written (save (fst demo) (snd demo) 0 ''/repo/model'') = [''/repo/model/model_1.h5'']"
proof -
  have n: "name (heap (fst demo) 0) = ''model_1''" by (rule demo_facts)
  have p: "os_path_join ''/repo/model'' (''model_1'' @ ''.h5'') = ''/repo/model/model_1.h5''"
    by (simp add: os_path_join_def)
  note t = save_single_file[of "fst demo" "snd demo" 0 "''/repo/model''", unfolded n p]
  note a = t[THEN conjunct1]
  have b: "fs (save (fst demo) (snd demo) 0 ''/repo/model'') ''/repo/model/model_2.h5'' = None"
    using t[THEN conjunct2, THEN conjunct1, rule_format, of "''/repo/model/model_2.h5''"]
    by (simp add: demo_facts)
  note c = t[THEN conjunct2, THEN conjunct2, THEN conjunct1]
  from n a b c show ?thesis by (simp add: demo_facts)
qed

text \<open>
  C2. Saving a network with \<^verbatim>\<open>save\<close> and loading that file back with \<^verbatim>\<open>load\<close> (same
  directory, the file name \<^verbatim>\<open>save\<close> derived) succeeds and installs a network equal to the saved
  one, so \<^verbatim>\<open>predict\<close> returns on every input exactly what it returned before saving (the same
  probabilities or the same error).
\<close>

theorem save_load_roundtrip:
  "\<exists>m' w' self'.
     load (save w self m dir) self dir (name (heap w m) @ ''.h5'') = Inr (m', w', self')
     \<and> model self' = m' \<and> heap w' m' = heap w m
     \<and> (\<forall>xs. map_sum fst fst (predict w' self' xs None)
               = map_sum fst fst (predict w (self\<lparr>model := m\<rparr>) xs None))"
  by (simp add: load_eq save_eq predict_falsy split: sum.split)

theorem save_load_roundtrip_witness:
  "\<exists>m' w' self'.
     load (save (fst demo) (snd demo) 0 ''/repo/model/'') (snd demo) ''/repo/model/'' ''model_1.h5''
       = Inr (m', w', self')
     \<and> model self' = m' \<and> heap w' m' = heap (fst demo) 0
     \<and> map_sum fst fst (predict w' self' [replicate 10000 0] None)
         = Inr [forward (heap (fst demo) 0) (replicate 10000 0)]"
proof -
  have s: "(snd demo)\<lparr>model := 0\<rparr> = snd demo"
    using demo_facts(1) by (cases "snd demo") simp
  from save_load_roundtrip[of "fst demo" "snd demo" 0 "''/repo/model/''"]
  obtain m' w' self' where
    l: "load (save (fst demo) (snd demo) 0 ''/repo/model/'') (snd demo) ''/repo/model/''
          (name (heap (fst demo) 0) @ ''.h5'') = Inr (m', w', self')"
    and m: "model self' = m'" "heap w' m' = heap (fst demo) 0"
    and p: "\<forall>xs. map_sum fst fst (predict w' self' xs None)
               = map_sum fst fst (predict (fst demo) ((snd demo)\<lparr>model := 0\<rparr>) xs None)"
    by blast
  from p have "map_sum fst fst (predict w' self' [replicate 10000 0] None)
         = Inr [forward (heap (fst demo) 0) (replicate 10000 0)]"
    by (simp add: s demo_predict_None)
  with l m show ?thesis by (simp add: demo_facts)
qed

section \<open>Plotting fails on a missing key, and on sequences of different lengths\<close>

text \<open>
  C3, as amended. \<^verbatim>\<open>plot_history\<close> raises a \<^verbatim>\<open>KeyError\<close> when one of the four keys is missing,
  naming the first missing one in the order \<^verbatim>\<open>loss\<close>, \<^verbatim>\<open>val_loss\<close>, \<^verbatim>\<open>acc\<close>,
  \<^verbatim>\<open>val_acc\<close>. When all four are
  present and the other three sequences are as long as the loss sequence, it issues the calls
  of the two charts and returns. When all four are present and one of the other three
  sequences has another length, the plotting call raises a \<^verbatim>\<open>ValueError\<close>.
\<close>

theorem plot_history_raises:
  "(h ''loss'' = None \<longrightarrow> plot_history h = Inl (KeyError ''loss''))
   \<and> (h ''loss'' \<noteq> None \<and> h ''val_loss'' = None \<longrightarrow> plot_history h = Inl (KeyError ''val_loss''))
   \<and> (h ''loss'' \<noteq> None \<and> h ''val_loss'' \<noteq> None \<and> h ''acc'' = None
        \<longrightarrow> plot_history h = Inl (KeyError ''acc''))
   \<and> (h ''loss'' \<noteq> None \<and> h ''val_loss'' \<noteq> None \<and> h ''acc'' \<noteq> None \<and> h ''val_acc'' = None
        \<longrightarrow> plot_history h = Inl (KeyError ''val_acc''))
   \<and> (\<forall>l vl a va.
        h ''loss'' = Some l \<and> h ''val_loss'' = Some vl \<and> h ''acc'' = Some a
        \<and> h ''val_acc'' = Some va \<longrightarrow>
          (length vl = length l \<and> length a = length l \<and> length va = length l
             \<longrightarrow> plot_history h = Inr (two_charts l vl a va))
          \<and> (length vl \<noteq> length l \<or> length a \<noteq> length l \<or> length va \<noteq> length l
             \<longrightarrow> plot_history h = Inl (ValueError ''x and y must have same first dimension'')))"
proof (intro conjI impI allI)
  assume "h ''loss'' = None"
  then show "plot_history h = Inl (KeyError ''loss'')" by (rule plot_history_KeyError)
next
  assume "h ''loss'' \<noteq> None \<and> h ''val_loss'' = None"
  then obtain l where "h ''loss'' = Some l" "h ''val_loss'' = None" by auto
  then show "plot_history h = Inl (KeyError ''val_loss'')" by (rule plot_history_KeyError)
next
  assume "h ''loss'' \<noteq> None \<and> h ''val_loss'' \<noteq> None \<and> h ''acc'' = None"
  then obtain l vl where "h ''loss'' = Some l" "h ''val_loss'' = Some vl" "h ''acc'' = None"
    by auto
  then show "plot_history h = Inl (KeyError ''acc'')" by (rule plot_history_KeyError)
next
  assume "h ''loss'' \<noteq> None \<and> h ''val_loss'' \<noteq> None \<and> h ''acc'' \<noteq> None \<and> h ''val_acc'' = None"
  then obtain l vl a where "h ''loss'' = Some l" "h ''val_loss'' = Some vl" "h ''acc'' = Some a"
    "h ''val_acc'' = None"
    by auto
  then show "plot_history h = Inl (KeyError ''val_acc'')" by (rule plot_history_KeyError)
next
  fix l vl a va
  assume p: "h ''loss'' = Some l \<and> h ''val_loss'' = Some vl \<and> h ''acc'' = Some a
        \<and> h ''val_acc'' = Some va"
    and e: "length vl = length l \<and> length a = length l \<and> length va = length l"
  from p have "plot_history h =
     (if length vl = length l \<and> length a = length l \<and> length va = length l
      then Inr (two_charts l vl a va)
      else Inl (ValueError ''x and y must have same first dimension''))"
    by (intro plot_history_present) simp_all
  with e show "plot_history h = Inr (two_charts l vl a va)" by simp
next
  fix l vl a va
  assume p: "h ''loss'' = Some l \<and> h ''val_loss'' = Some vl \<and> h ''acc'' = Some a
        \<and> h ''val_acc'' = Some va"
    and e: "length vl \<noteq> length l \<or> length a \<noteq> length l \<or> length va \<noteq> length l"
  from p have "plot_history h =
     (if length vl = length l \<and> length a = length l \<and> length va = length l
      then Inr (two_charts l vl a va)
      else Inl (ValueError ''x and y must have same first dimension''))"
    by (intro plot_history_present) simp_all
  moreover from e have "\<not> (length vl = length l \<and> length a = length l \<and> length va = length l)"
    by simp
  ultimately show "plot_history h = Inl (ValueError ''x and y must have same first dimension'')"
    by simp
qed

text \<open>
  The claim as stated (an error if and only if a key is missing) fails on a history with
  all four keys whose validation loss is one value short.
\<close>

theorem plot_history_ragged_counterexample:
  "ragged_history ''loss'' = Some [2, 1] \<and> ragged_history ''val_loss'' = Some [3]
   \<and> ragged_history ''acc'' = Some [0, 1] \<and> ragged_history ''val_acc'' = Some [0, 1]
   \<and> plot_history ragged_history = Inl (ValueError ''x and y must have same first dimension'')"
  using plot_history_present[OF ragged_keys] ragged_keys by simp

theorem plot_history_raises_witness:
  "Map.empty ''loss'' = (None :: real list option)
   \<and> plot_history Map.empty = Inl (KeyError ''loss'')
   \<and> aligned_history ''loss'' = Some [2, 1] \<and> aligned_history ''val_loss'' = Some [3, 2]
   \<and> aligned_history ''acc'' = Some [0, 1] \<and> aligned_history ''val_acc'' = Some [0, 1]
   \<and> plot_history aligned_history = Inr (two_charts [2, 1] [3, 2] [0, 1] [0, 1])
   \<and> ragged_history ''acc'' = Some [0, 1]
   \<and> plot_history ragged_history = Inl (ValueError ''x and y must have same first dimension'')"
proof -
  have 1: "plot_history Map.empty = Inl (KeyError ''loss'')"
    using plot_history_raises[of Map.empty] by simp
  have 2: "plot_history aligned_history = Inr (two_charts [2, 1] [3, 2] [0, 1] [0, 1])"
    using plot_history_raises[of aligned_history] aligned_keys by simp
  have 3: "plot_history ragged_history = Inl (ValueError ''x and y must have same first dimension'')"
    using plot_history_raises[of ragged_history] ragged_keys by simp
  from 1 2 3 aligned_keys ragged_keys show ?thesis by simp
qed

section \<open>Training\<close>

text \<open>
  C4. For a training and a validation split that fit the held network, \<^verbatim>\<open>train\<close> raises no
  error whatever the epoch count, batch size and flag (left out, they are 1, 512 and true);
  it returns the history of the run together with the held network, which is the network
  the training loop produced, and stores the history in the object. Every sequence of the
  history has as many values as epochs were run, and for an epoch count of at least one
  all four metrics are present with exactly that many values.
\<close>

theorem train_history_length:
  assumes "shapes_ok (heap w (model self)) train_set"
    and "shapes_ok (heap w (model self)) dev_set"
  shows "\<exists>h w' self'.
      train opt sc w self train_set dev_set epochs batch_size save_model
        = Inr ((h, model self), w', self')
      \<and> train_history self' = Some h \<and> model self' = model self
      \<and> heap w' (model self)
          = snd (fit_loop opt sc train_set (default 512 batch_size) dev_set
                   (nat (default 1 epochs)) (Map.empty, heap w (model self)))
      \<and> (\<forall>k v. h k = Some v \<longrightarrow> length v = nat (default 1 epochs))
      \<and> (1 \<le> default 1 epochs \<longrightarrow>
           (\<exists>l vl a va. h ''loss'' = Some l \<and> h ''val_loss'' = Some vl
              \<and> h ''acc'' = Some a \<and> h ''val_acc'' = Some va
              \<and> int (length l) = default 1 epochs \<and> int (length vl) = default 1 epochs
              \<and> int (length a) = default 1 epochs \<and> int (length va) = default 1 epochs))"
proof -
  from train_ok[OF assms, of opt sc epochs batch_size save_model]
  obtain h w' where
    t: "train opt sc w self train_set dev_set epochs batch_size save_model
          = Inr ((h, model self), w', self\<lparr>train_history := Some h\<rparr>)"
    and f: "keras_fit opt sc w (model self) train_set (default 512 batch_size) (default 1 epochs)
          dev_set = Inr (h, w\<lparr>heap := heap w'\<rparr>)"
    and n: "heap w' (model self)
          = snd (fit_loop opt sc train_set (default 512 batch_size) dev_set
                   (nat (default 1 epochs)) (Map.empty, heap w (model self)))"
    by blast
  from keras_fit_Inr[OF f] have rec: "epochs_recorded (nat (default 1 epochs)) h" by blast
  have len: "\<forall>k v. h k = Some v \<longrightarrow> length v = nat (default 1 epochs)"
    using epochs_recorded_length[OF rec] by blast
  have four: "\<exists>l vl a va. h ''loss'' = Some l \<and> h ''val_loss'' = Some vl
              \<and> h ''acc'' = Some a \<and> h ''val_acc'' = Some va
              \<and> int (length l) = default 1 epochs \<and> int (length vl) = default 1 epochs
              \<and> int (length a) = default 1 epochs \<and> int (length va) = default 1 epochs"
    if ge: "1 \<le> default 1 epochs"
  proof -
    from ge have pos: "0 < nat (default 1 epochs)" by simp
    from epochs_recorded_present[OF rec pos, of "''loss''"]
    obtain l where l: "h ''loss'' = Some l" "length l = nat (default 1 epochs)" by auto
    from epochs_recorded_present[OF rec pos, of "''val_loss''"]
    obtain vl where vl: "h ''val_loss'' = Some vl" "length vl = nat (default 1 epochs)" by auto
    from epochs_recorded_present[OF rec pos, of "''acc''"]
    obtain a where a: "h ''acc'' = Some a" "length a = nat (default 1 epochs)" by auto
    from epochs_recorded_present[OF rec pos, of "''val_acc''"]
    obtain va where va: "h ''val_acc'' = Some va" "length va = nat (default 1 epochs)" by auto
    from ge l vl a va show ?thesis by simp
  qed
  from t n len four show ?thesis by simp
qed

theorem train_history_length_witness:
  "shapes_ok (heap (fst demo) (model (snd demo))) sample \<and> (1::int) \<le> default 1 (Some 3)
   \<and> (\<exists>h w' self'.
        train (\<lambda>bs d n. (n, 0, 0)) (\<lambda>n d. (0, 0)) (fst demo) (snd demo) sample sample
          (Some 3) None (Some False) = Inr ((h, model (snd demo)), w', self')
        \<and> (\<exists>l vl a va. h ''loss'' = Some l \<and> h ''val_loss'' = Some vl
              \<and> h ''acc'' = Some a \<and> h ''val_acc'' = Some va
              \<and> length l = 3 \<and> length vl = 3 \<and> length a = 3 \<and> length va = 3))"
proof -
  have ge: "(1::int) \<le> default 1 (Some 3)" by simp
  from train_history_length[OF demo_sample demo_sample,
      of "\<lambda>bs d n. (n, 0, 0)" "\<lambda>n d. (0, 0)" "Some 3" None "Some False"]
  obtain h w' self' where
    t: "train (\<lambda>bs d n. (n, 0, 0)) (\<lambda>n d. (0, 0)) (fst demo) (snd demo) sample sample
          (Some 3) None (Some False) = Inr ((h, model (snd demo)), w', self')"
    and four: "1 \<le> default 1 (Some (3::int)) \<longrightarrow>
           (\<exists>l vl a va. h ''loss'' = Some l \<and> h ''val_loss'' = Some vl
              \<and> h ''acc'' = Some a \<and> h ''val_acc'' = Some va
              \<and> int (length l) = default 1 (Some 3) \<and> int (length vl) = default 1 (Some 3)
              \<and> int (length a) = default 1 (Some 3) \<and> int (length va) = default 1 (Some 3))"
    by blast
  from four ge obtain l vl a va where
    "h ''loss'' = Some l" "h ''val_loss'' = Some vl" "h ''acc'' = Some a" "h ''val_acc'' = Some va"
    "length l = 3" "length vl = 3" "length a = 3" "length va = 3"
    by auto
  with t demo_sample ge show ?thesis by simp
qed

text \<open>
  C5. A call of \<^verbatim>\<open>train\<close> that returns has written a file exactly when its flag is set (or
  left out): then the one write goes to \<^verbatim>\<open>os.path.join\<close> of the object's model directory and
  the trained network's name with \<^verbatim>\<open>.h5\<close>, and the file holds the trained network; with the flag
  unset no file is written or changed. \<^verbatim>\<open>train\<close> leaves the model directory as it is, and
  \<^verbatim>\<open>__init__\<close> sets it to \<^verbatim>\<open>model/\<close> beside the script.
\<close>

theorem train_saves_iff_flag:
  assumes "train opt sc w self train_set dev_set epochs batch_size save_model
             = Inr ((h, m), w', self')"
  shows "(default True save_model \<longrightarrow>
            written w' = written w @ [os_path_join (model_dir self) (name (heap w' m) @ ''.h5'')]
          \<and> fs w' = (fs w)(os_path_join (model_dir self) (name (heap w' m) @ ''.h5'') \<mapsto> heap w' m))
       \<and> (\<not> default True save_model \<longrightarrow> written w' = written w \<and> fs w' = fs w)
       \<and> model_dir self' = model_dir self
       \<and> model_dir (snd (init file ini w0)) = os_path_join (os_path_dirname file) ''model/''"
proof -
  from train_Inr[OF assms] obtain w1 where
    f: "keras_fit opt sc w (model self) train_set (default 512 batch_size) (default 1 epochs)
          dev_set = Inr (h, w1)"
    and m: "m = model self" and s: "self' = self\<lparr>train_history := Some h\<rparr>"
    and w': "w' = print (if default True save_model
                         then save w1 self' (model self) (model_dir self) else w1)
                (''Model trained successfully and saved in '/model'' @ [CHR 0x27])"
    by blast
  from keras_fit_Inr[OF f] have k: "fs w1 = fs w" "written w1 = written w" by blast+
  have i: "model_dir (snd (init file ini w0)) = os_path_join (os_path_dirname file) ''model/''"
    by (simp add: init_def split: prod.split)
  show ?thesis
    by (simp add: w' m s k i print_fields save_fields save_eq)
qed

theorem train_saves_iff_flag_witness:
  "(\<exists>h w' self'.
      train (\<lambda>bs d n. (n, 0, 0)) (\<lambda>n d. (0, 0)) (fst demo) (snd demo) sample sample
        None None None = Inr ((h, 0), w', self')
      \<and> default True None
      \<and> written w' = [''/repo/model/model_1.h5'']
      \<and> fs w' ''/repo/model/model_1.h5'' = Some (heap w' 0))
   \<and> (\<exists>h w' self'.
      train (\<lambda>bs d n. (n, 0, 0)) (\<lambda>n d. (0, 0)) (fst demo) (snd demo) sample sample
        None None (Some False) = Inr ((h, 0), w', self')
      \<and> \<not> default True (Some False)
      \<and> written w' = [] \<and> fs w' = Map.empty)"
proof -
  have p: "os_path_join ''/repo/model/'' ''model_1.h5'' = ''/repo/model/model_1.h5''"
    by (simp add: os_path_join_def)
  from demo_train[of None] obtain h w' where
    t: "train (\<lambda>bs d n. (n, 0, 0)) (\<lambda>n d. (0, 0)) (fst demo) (snd demo) sample sample
          None None None = Inr ((h, 0), w', (snd demo)\<lparr>train_history := Some h\<rparr>)"
    and n: "heap w' 0 = heap (fst demo) 0"
    by blast
  from train_saves_iff_flag[OF t, of "''/repo/model.py''" "\<lambda>l j i. 0" boot]
  have 1: "written w' = [''/repo/model/model_1.h5'']
      \<and> fs w' ''/repo/model/model_1.h5'' = Some (heap w' 0)"
    by (simp add: demo_facts n p)
  from demo_train[of "Some False"] obtain h2 w2 where
    t2: "train (\<lambda>bs d n. (n, 0, 0)) (\<lambda>n d. (0, 0)) (fst demo) (snd demo) sample sample
          None None (Some False) = Inr ((h2, 0), w2, (snd demo)\<lparr>train_history := Some h2\<rparr>)"
    by blast
  from train_saves_iff_flag[OF t2, of "''/repo/model.py''" "\<lambda>l j i. 0" boot]
  have 2: "written w2 = [] \<and> fs w2 = Map.empty"
    by (simp add: demo_facts)
  from t 1 t2 2 show ?thesis by simp
qed

section \<open>Prediction and the held network\<close>

text \<open>
  C10. With \<^verbatim>\<open>load_model_name\<close> equal to \<^verbatim>\<open>None\<close> or to the empty string, \<^verbatim>\<open>predict\<close> is the
  framework's prediction of the held network and leaves world and object as they are; with
  any other name it is \<^verbatim>\<open>load\<close> from the model directory followed by the prediction of the
  loaded network. On a call that returns, a network object was created exactly when the name
  is truthy; then the held reference is that new object, holding the file's content. A call
  without a truthy name that raises leaves world and object as they are, too.
\<close>

theorem predict_loads_iff_truthy:
  "(load_model_name = None \<or> load_model_name = Some [] \<longrightarrow>
      predict w self input load_model_name
        = (case keras_predict (heap w (model self)) input of
             Inl e \<Rightarrow> Inl (e, w, self) | Inr ps \<Rightarrow> Inr (ps, w, self)))
   \<and> (\<forall>s. load_model_name = Some s \<and> s \<noteq> [] \<longrightarrow>
        predict w self input load_model_name
          = (case load w self (model_dir self) s of
               Inl e \<Rightarrow> Inl (e, w, self)
             | Inr (m, w', self') \<Rightarrow>
                 (case keras_predict (heap w' m) input of
                    Inl e \<Rightarrow> Inl (e, w', self') | Inr ps \<Rightarrow> Inr (ps, w', self'))))
   \<and> (\<forall>ps w' self'. predict w self input load_model_name = Inr (ps, w', self') \<longrightarrow>
        (truthy load_model_name \<longleftrightarrow> next_ref w' \<noteq> next_ref w)
        \<and> (\<not> truthy load_model_name \<longrightarrow> w' = w \<and> self' = self)
        \<and> (truthy load_model_name \<longrightarrow>
             model self' = next_ref w
             \<and> fs w (os_path_join (model_dir self) (the load_model_name))
                 = Some (heap w' (model self'))))
   \<and> (\<forall>e w' self'. predict w self input load_model_name = Inl (e, w', self')
          \<and> \<not> truthy load_model_name \<longrightarrow> w' = w \<and> self' = self)"
proof -
  have a: "load_model_name = None \<or> load_model_name = Some [] \<Longrightarrow>
      predict w self input load_model_name
        = (case keras_predict (heap w (model self)) input of
             Inl e \<Rightarrow> Inl (e, w, self) | Inr ps \<Rightarrow> Inr (ps, w, self))"
    by (rule predict_falsy) auto
  have b: "load_model_name = Some s \<and> s \<noteq> [] \<Longrightarrow>
        predict w self input load_model_name
          = (case load w self (model_dir self) s of
               Inl e \<Rightarrow> Inl (e, w, self)
             | Inr (m, w', self') \<Rightarrow>
                 (case keras_predict (heap w' m) input of
                    Inl e \<Rightarrow> Inl (e, w', self') | Inr ps \<Rightarrow> Inr (ps, w', self')))" for s
    by (auto simp: predict_Some load_eq split: option.split sum.split)
  have c: "(truthy load_model_name \<longleftrightarrow> next_ref w' \<noteq> next_ref w)
        \<and> (\<not> truthy load_model_name \<longrightarrow> w' = w \<and> self' = self)
        \<and> (truthy load_model_name \<longrightarrow>
             model self' = next_ref w
             \<and> fs w (os_path_join (model_dir self) (the load_model_name))
                 = Some (heap w' (model self')))"
    if p: "predict w self input load_model_name = Inr (ps, w', self')" for ps w' self'
  proof (cases "truthy load_model_name")
    case False
    with p show ?thesis by (auto simp: predict_falsy split: sum.splits)
  next
    case True
    then obtain s where s: "load_model_name = Some s" "s \<noteq> []"
      by (cases load_model_name) auto
    with p True show ?thesis
      by (auto simp: predict_Some split: option.splits sum.splits)
  qed
  have d: "w' = w \<and> self' = self"
    if "predict w self input load_model_name = Inl (e, w', self') \<and> \<not> truthy load_model_name"
    for e w' self'
    using that by (auto simp: predict_falsy split: sum.splits)
  from a b c d show ?thesis by blast
qed

theorem predict_loads_iff_truthy_witness:
  "predict (fst demo) (snd demo) [replicate 10000 0] None
     = Inr ([forward (heap (fst demo) 0) (replicate 10000 0)], fst demo, snd demo)
   \<and> predict (fst demo) (snd demo) [replicate 10000 0] (Some [])
     = Inr ([forward (heap (fst demo) 0) (replicate 10000 0)], fst demo, snd demo)
   \<and> truthy (Some ''model_1.h5'')
   \<and> predict saved (snd demo) [replicate 10000 0] (Some ''model_1.h5'')
       = Inr ([forward (heap (fst demo) 0) (replicate 10000 0)],
            saved\<lparr>heap := (heap saved)(1 := heap (fst demo) 0), next_ref := 2\<rparr>,
            (snd demo)\<lparr>model := 1\<rparr>)
   \<and> next_ref (saved\<lparr>heap := (heap saved)(1 := heap (fst demo) 0), next_ref := 2\<rparr>)
       \<noteq> next_ref saved
   \<and> model ((snd demo)\<lparr>model := 1\<rparr>) \<noteq> model (snd demo)"
proof -
  have 1: "predict (fst demo) (snd demo) [replicate 10000 0] None
     = Inr ([forward (heap (fst demo) 0) (replicate 10000 0)], fst demo, snd demo)"
    using predict_loads_iff_truthy[of None "fst demo" "snd demo" "[replicate 10000 0]"]
    by (simp add: demo_facts demo_keras_predict)
  have 2: "predict (fst demo) (snd demo) [replicate 10000 0] (Some [])
     = Inr ([forward (heap (fst demo) 0) (replicate 10000 0)], fst demo, snd demo)"
    using predict_loads_iff_truthy[of "Some []" "fst demo" "snd demo" "[replicate 10000 0]"]
    by (simp add: demo_facts demo_keras_predict)
  have 3: "next_ref (saved\<lparr>heap := (heap saved)(1 := heap (fst demo) 0), next_ref := 2\<rparr>)
       \<noteq> next_ref saved"
    using predict_loads_iff_truthy[of "Some ''model_1.h5''" saved "snd demo" "[replicate 10000 0]"]
      demo_predict_Some
    by (simp add: saved_facts)
  from 1 2 3 demo_predict_Some show ?thesis by (simp add: demo_facts)
qed

text \<open>
  C8. After a call of \<^verbatim>\<open>predict\<close> that returned, calling it again on the same input returns
  the same probabilities, with no artifact name (leaving world and object exactly as they
  are) as well as with the same name again; the call changed no network object that existed
  before and no file, and without a name it changed nothing at all.
\<close>

theorem predict_repeatable:
  assumes "predict w self input load_model_name = Inr (ps, w', self')"
  shows "predict w' self' input None = Inr (ps, w', self')
     \<and> (\<exists>w'' self''. predict w' self' input load_model_name = Inr (ps, w'', self'')
            \<and> heap w'' (model self'') = heap w' (model self'))
     \<and> (\<forall>r. r < next_ref w \<longrightarrow> heap w' r = heap w r)
     \<and> fs w' = fs w
     \<and> (load_model_name = None \<longrightarrow> w' = w \<and> self' = self)"
proof (cases "truthy load_model_name")
  case False
  with assms show ?thesis
    by (cases load_model_name) (auto simp: predict_falsy split: sum.splits)
next
  case True
  then obtain s where s: "load_model_name = Some s" "s \<noteq> []"
    by (cases load_model_name) auto
  from assms s obtain net where
    f: "fs w (os_path_join (model_dir self) s) = Some net"
    and k: "keras_predict net input = Inr ps"
    and w': "w' = w\<lparr>heap := (heap w)(next_ref w := net), next_ref := next_ref w + 1\<rparr>"
    and self': "self' = self\<lparr>model := next_ref w\<rparr>"
    by (auto simp: predict_Some split: option.splits sum.splits)
  show ?thesis
    using s f k by (simp add: w' self' predict_Some predict_falsy)
qed

theorem predict_repeatable_witness:
  "predict saved (snd demo) [replicate 10000 0] (Some ''model_1.h5'')
       = Inr ([forward (heap (fst demo) 0) (replicate 10000 0)],
            saved\<lparr>heap := (heap saved)(1 := heap (fst demo) 0), next_ref := 2\<rparr>,
            (snd demo)\<lparr>model := 1\<rparr>)
   \<and> predict (saved\<lparr>heap := (heap saved)(1 := heap (fst demo) 0), next_ref := 2\<rparr>)
         ((snd demo)\<lparr>model := 1\<rparr>) [replicate 10000 0] None
       = Inr ([forward (heap (fst demo) 0) (replicate 10000 0)],
            saved\<lparr>heap := (heap saved)(1 := heap (fst demo) 0), next_ref := 2\<rparr>,
            (snd demo)\<lparr>model := 1\<rparr>)
   \<and> heap (saved\<lparr>heap := (heap saved)(1 := heap (fst demo) 0), next_ref := 2\<rparr>) 0
       = heap saved 0"
proof -
  from predict_repeatable[OF demo_predict_Some]
  have "predict (saved\<lparr>heap := (heap saved)(1 := heap (fst demo) 0), next_ref := 2\<rparr>)
         ((snd demo)\<lparr>model := 1\<rparr>) [replicate 10000 0] None
       = Inr ([forward (heap (fst demo) 0) (replicate 10000 0)],
            saved\<lparr>heap := (heap saved)(1 := heap (fst demo) 0), next_ref := 2\<rparr>,
            (snd demo)\<lparr>model := 1\<rparr>)"
    by blast
  with demo_predict_Some show ?thesis by simp
qed

text \<open>
  C7, as amended. The held network is replaced wholesale by three operations: \<^verbatim>\<open>load\<close>,
  \<^verbatim>\<open>predict\<close> with a truthy artifact name, and \<^verbatim>\<open>build\<close>. After \<^verbatim>\<open>load\<close> and such a \<^verbatim>\<open>predict\<close> the
  held reference is a new object holding the file's content (also when that \<^verbatim>\<open>predict\<close> then
  raises on its input), after \<^verbatim>\<open>build\<close> a new object holding the network just constructed;
  every other network object is left as it was, and the history and the model directory of
  the object are not modified. \<^verbatim>\<open>predict\<close> without a truthy name changes nothing, \<^verbatim>\<open>train\<close>
  keeps the held reference and changes no other network object, and \<^verbatim>\<open>save\<close> changes no
  network object; \<^verbatim>\<open>evaluate\<close> and \<^verbatim>\<open>plot_history\<close> return neither a world nor an object.
\<close>

theorem held_network_replaced_by:
  "(load w self dir model_name = Inr (m, w', self') \<longrightarrow>
      model self' = next_ref w \<and> m = next_ref w
      \<and> fs w (os_path_join dir model_name) = Some (heap w' (model self'))
      \<and> (\<forall>r. r \<noteq> next_ref w \<longrightarrow> heap w' r = heap w r)
      \<and> train_history self' = train_history self \<and> model_dir self' = model_dir self)
   \<and> (truthy load_model_name \<and> predict w self input load_model_name = Inr (ps, w', self') \<longrightarrow>
      model self' = next_ref w
      \<and> fs w (os_path_join (model_dir self) (the load_model_name)) = Some (heap w' (model self'))
      \<and> (\<forall>r. r \<noteq> next_ref w \<longrightarrow> heap w' r = heap w r)
      \<and> train_history self' = train_history self \<and> model_dir self' = model_dir self)
   \<and> (truthy load_model_name \<and> predict w self input load_model_name = Inl (e, w', self')
        \<and> fs w (os_path_join (model_dir self) (the load_model_name)) \<noteq> None \<longrightarrow>
      model self' = next_ref w
      \<and> fs w (os_path_join (model_dir self) (the load_model_name)) = Some (heap w' (model self'))
      \<and> (\<forall>r. r \<noteq> next_ref w \<longrightarrow> heap w' r = heap w r)
      \<and> train_history self' = train_history self \<and> model_dir self' = model_dir self)
   \<and> (build ini w self = (m, w', self') \<longrightarrow>
      model self' = next_ref w \<and> m = next_ref w
      \<and> (\<forall>r. r \<noteq> next_ref w \<longrightarrow> heap w' r = heap w r)
      \<and> train_history self' = train_history self \<and> model_dir self' = model_dir self)
   \<and> (\<not> truthy load_model_name \<and> predict w self input load_model_name = Inr (ps, w', self') \<longrightarrow>
      self' = self \<and> w' = w)
   \<and> (\<not> truthy load_model_name \<and> predict w self input load_model_name = Inl (e, w', self') \<longrightarrow>
      self' = self \<and> w' = w)
   \<and> (train opt sc w self train_set dev_set epochs batch_size save_model
         = Inr ((h, m), w', self') \<longrightarrow>
      model self' = model self \<and> m = model self \<and> model_dir self' = model_dir self
      \<and> (\<forall>r. r \<noteq> model self \<longrightarrow> heap w' r = heap w r))
   \<and> heap (save w self m dir) = heap w"
proof -
  have 1: "load w self dir model_name = Inr (m, w', self') \<Longrightarrow>
      model self' = next_ref w \<and> m = next_ref w
      \<and> fs w (os_path_join dir model_name) = Some (heap w' (model self'))
      \<and> (\<forall>r. r \<noteq> next_ref w \<longrightarrow> heap w' r = heap w r)
      \<and> train_history self' = train_history self \<and> model_dir self' = model_dir self"
    by (auto simp: load_eq split: option.splits)
  have 2: "truthy load_model_name \<and> predict w self input load_model_name = Inr (ps, w', self') \<Longrightarrow>
      model self' = next_ref w
      \<and> fs w (os_path_join (model_dir self) (the load_model_name)) = Some (heap w' (model self'))
      \<and> (\<forall>r. r \<noteq> next_ref w \<longrightarrow> heap w' r = heap w r)
      \<and> train_history self' = train_history self \<and> model_dir self' = model_dir self"
    by (cases load_model_name) (auto simp: predict_Some split: option.splits sum.splits)
  have raised_loaded: "truthy load_model_name \<and> predict w self input load_model_name = Inl (e, w', self')
        \<and> fs w (os_path_join (model_dir self) (the load_model_name)) \<noteq> None \<Longrightarrow>
      model self' = next_ref w
      \<and> fs w (os_path_join (model_dir self) (the load_model_name)) = Some (heap w' (model self'))
      \<and> (\<forall>r. r \<noteq> next_ref w \<longrightarrow> heap w' r = heap w r)
      \<and> train_history self' = train_history self \<and> model_dir self' = model_dir self"
    by (cases load_model_name) (auto simp: predict_Some split: option.splits sum.splits)
  have raised_kept: "\<not> truthy load_model_name \<and> predict w self input load_model_name = Inl (e, w', self') \<Longrightarrow>
      self' = self \<and> w' = w"
    by (auto simp: predict_falsy split: sum.splits)
  have 3: "build ini w self = (m, w', self') \<Longrightarrow>
      model self' = next_ref w \<and> m = next_ref w
      \<and> (\<forall>r. r \<noteq> next_ref w \<longrightarrow> heap w' r = heap w r)
      \<and> train_history self' = train_history self \<and> model_dir self' = model_dir self"
  proof -
    assume b: "build ini w self = (m, w', self')"
    from build_eq[OF b] have bn: "build_network ini w = (m, w')"
      and s: "self' = self\<lparr>model := m\<rparr>" by simp_all
    from build_network_net[OF bn] have "m = next_ref w" "\<forall>r. r \<noteq> m \<longrightarrow> heap w' r = heap w r"
      by blast+
    with s show ?thesis by simp
  qed
  have 4: "\<not> truthy load_model_name \<and> predict w self input load_model_name = Inr (ps, w', self') \<Longrightarrow>
      self' = self \<and> w' = w"
    by (auto simp: predict_falsy split: sum.splits)
  have 5: "train opt sc w self train_set dev_set epochs batch_size save_model
         = Inr ((h, m), w', self') \<Longrightarrow>
      model self' = model self \<and> m = model self \<and> model_dir self' = model_dir self
      \<and> (\<forall>r. r \<noteq> model self \<longrightarrow> heap w' r = heap w r)"
  proof -
    assume t: "train opt sc w self train_set dev_set epochs batch_size save_model
         = Inr ((h, m), w', self')"
    from train_Inr[OF t] obtain w1 where
      f: "keras_fit opt sc w (model self) train_set (default 512 batch_size) (default 1 epochs)
            dev_set = Inr (h, w1)"
      and m: "m = model self" and s: "self' = self\<lparr>train_history := Some h\<rparr>"
      and w': "w' = print (if default True save_model
                         then save w1 self' (model self) (model_dir self) else w1)
                (''Model trained successfully and saved in '/model'' @ [CHR 0x27])"
      by blast
    from keras_fit_Inr[OF f] have "\<forall>r. r \<noteq> model self \<longrightarrow> heap w1 r = heap w r" by blast
    then show ?thesis by (simp add: m s w' print_fields save_fields)
  qed
  have 6: "heap (save w self m dir) = heap w" by (rule save_fields)
  from 1 2 raised_loaded 3 4 raised_kept 5 6 show ?thesis by blast
qed

text \<open>
  The claim as stated (exactly \<^verbatim>\<open>load\<close> and \<^verbatim>\<open>predict\<close> with a name replace the network) fails
  on \<^verbatim>\<open>build\<close>: called on the constructed object it moves the held reference from object 0,
  still named \<^verbatim>\<open>model_1\<close>, to the new object 1, named \<^verbatim>\<open>model_2\<close>.
\<close>

theorem build_also_replaces_counterexample:
  "model (snd demo) = 0
   \<and> model (snd (snd (build (\<lambda>l j i. 0) (fst demo) (snd demo)))) = 1
   \<and> name (heap (fst (snd (build (\<lambda>l j i. 0) (fst demo) (snd demo)))) 0) = ''model_1''
   \<and> name (heap (fst (snd (build (\<lambda>l j i. 0) (fst demo) (snd demo)))) 1) = ''model_2''"
proof -
  let ?b = "build (\<lambda>l j i. 0) (fst demo) (snd demo)"
  have b: "?b = (fst ?b, fst (snd ?b), snd (snd ?b))" by simp
  from build_eq[OF b] have bn: "build_network (\<lambda>l j i. 0) (fst demo) = (fst ?b, fst (snd ?b))"
    and s: "snd (snd ?b) = (snd demo)\<lparr>model := fst ?b\<rparr>" by simp_all
  note n = build_network_net[OF bn]
  from n have m: "fst ?b = 1" by (simp add: demo_facts)
  from n have old: "heap (fst (snd ?b)) 0 = heap (fst demo) 0" unfolding m by simp
  have u: "uid (fst demo) = 1"
    using build_network_net[OF init_built[of "\<lambda>l j i. 0" boot "''/repo/model.py''"]]
    by (simp add: demo_def boot_def)
  from n have nm: "name (heap (fst (snd ?b)) 1) = ''model_'' @ str (uid (fst demo) + 1)"
    unfolding m by blast
  have "model (snd (snd ?b)) = 1" by (subst s) (simp add: m)
  with old nm u show ?thesis by (simp add: demo_facts str_digit)
qed

theorem held_network_replaced_by_witness:
  "load saved (snd demo) ''/repo/model/'' ''model_1.h5''
     = Inr (1, saved\<lparr>heap := (heap saved)(1 := heap (fst demo) 0), next_ref := 2\<rparr>,
            (snd demo)\<lparr>model := 1\<rparr>)
   \<and> fs saved ''/repo/model/model_1.h5''
       = Some (heap (saved\<lparr>heap := (heap saved)(1 := heap (fst demo) 0), next_ref := 2\<rparr>) 1)
   \<and> truthy (Some ''model_1.h5'')
   \<and> predict saved (snd demo) [replicate 10000 0] (Some ''model_1.h5'')
       = Inr ([forward (heap (fst demo) 0) (replicate 10000 0)],
            saved\<lparr>heap := (heap saved)(1 := heap (fst demo) 0), next_ref := 2\<rparr>,
            (snd demo)\<lparr>model := 1\<rparr>)
   \<and> predict saved (snd demo) [[0]] (Some ''model_1.h5'')
       = Inl (ValueError ''expected input of another shape'',
            saved\<lparr>heap := (heap saved)(1 := heap (fst demo) 0), next_ref := 2\<rparr>,
            (snd demo)\<lparr>model := 1\<rparr>)
   \<and> model ((snd demo)\<lparr>model := 1\<rparr>) = next_ref saved
   \<and> model (snd (snd (build (\<lambda>l j i. 0) (fst demo) (snd demo)))) = 1
   \<and> model_dir (snd (snd (build (\<lambda>l j i. 0) (fst demo) (snd demo)))) = ''/repo/model/''
   \<and> \<not> truthy None
   \<and> predict (fst demo) (snd demo) [replicate 10000 0] None
       = Inr ([forward (heap (fst demo) 0) (replicate 10000 0)], fst demo, snd demo)
   \<and> predict (fst demo) (snd demo) [[0]] None
       = Inl (ValueError ''expected input of another shape'', fst demo, snd demo)
   \<and> (\<exists>h w'. train (\<lambda>bs d n. (n, 0, 0)) (\<lambda>n d. (0, 0)) (fst demo) (snd demo) sample sample
             None None None = Inr ((h, 0), w', (snd demo)\<lparr>train_history := Some h\<rparr>)
         \<and> model ((snd demo)\<lparr>train_history := Some h\<rparr>) = 0)"
proof -
  let ?w2 = "saved\<lparr>heap := (heap saved)(1 := heap (fst demo) 0), next_ref := 2\<rparr>"
  let ?b = "build (\<lambda>l j i. 0) (fst demo) (snd demo)"
  have b: "?b = (fst ?b, fst (snd ?b), snd (snd ?b))" by simp
  from demo_train[of None] obtain h w' where
    t: "train (\<lambda>bs d n. (n, 0, 0)) (\<lambda>n d. (0, 0)) (fst demo) (snd demo) sample sample
          None None None = Inr ((h, 0), w', (snd demo)\<lparr>train_history := Some h\<rparr>)"
    by blast
  have l: "fs saved ''/repo/model/model_1.h5'' = Some (heap ?w2 1)"
    using held_network_replaced_by[where w = saved and self = "snd demo"
        and dir = "''/repo/model/''" and model_name = "''model_1.h5''" and m = 1
        and w' = ?w2 and self' = "(snd demo)\<lparr>model := 1\<rparr>"] demo_load
    by (simp add: join_model_1 saved_facts)
  have r: "model ((snd demo)\<lparr>model := 1\<rparr>) = next_ref saved"
    using held_network_replaced_by[where w = saved and self = "snd demo"
        and load_model_name = "Some ''model_1.h5''" and input = "[[0]]"
        and e = "ValueError ''expected input of another shape''"
        and w' = ?w2 and self' = "(snd demo)\<lparr>model := 1\<rparr>"] demo_predict_raises
    by (simp add: demo_facts join_model_1 saved_facts)
  have bm: "model (snd (snd ?b)) = 1 \<and> model_dir (snd (snd ?b)) = ''/repo/model/''"
    using held_network_replaced_by[where w = "fst demo" and self = "snd demo"
        and m = "fst ?b" and w' = "fst (snd ?b)" and self' = "snd (snd ?b)"
        and ini = "\<lambda>l j i. 0"] b
    by (simp add: demo_facts)
  have tm: "model ((snd demo)\<lparr>train_history := Some h\<rparr>) = 0"
    using held_network_replaced_by[where w = "fst demo" and self = "snd demo"
        and m = 0 and w' = w' and self' = "(snd demo)\<lparr>train_history := Some h\<rparr>"
        and opt = "\<lambda>bs d n. (n, 0, 0)" and sc = "\<lambda>n d. (0, 0)" and train_set = sample
        and dev_set = sample and epochs = None and batch_size = None and save_model = None
        and h = h] t
    by (simp add: demo_facts)
  from demo_load l demo_predict_Some demo_predict_raises r bm demo_predict_None
    demo_predict_None_raises t tm
  show ?thesis by auto
qed

section \<open>Evaluation\<close>

text \<open>
  \<^verbatim>\<open>evaluate\<close> hands the held network and the test split to the framework and returns its
  pair of loss and accuracy, or raises its shape error; it has no way to change the world or
  the object.
\<close>

lemma evaluate_scores:
  "evaluate sc w self test_set =
     (if shapes_ok (heap w (model self)) test_set then Inr (sc (heap w (model self)) test_set)
      else Inl (ValueError ''test data of another shape''))"
  by (cases test_set) (simp add: evaluate_def keras_evaluate_def bind_def split: prod.split)

lemma evaluate_scores_example:
  "evaluate (\<lambda>n d. (2, 1)) (fst demo) (snd demo) sample = Inr (2, 1)
   \<and> evaluate (\<lambda>n d. (2, 1)) (fst demo) (snd demo) ([[0]], [[0]])
       = Inl (ValueError ''test data of another shape'')"
proof -
  have "\<not> shapes_ok (heap (fst demo) (model (snd demo))) ([[0]], [[0]])"
    by (simp add: shapes_ok_def demo_facts)
  with demo_sample show ?thesis
    by (simp add: evaluate_scores[of "\<lambda>n d. (2, 1)" "fst demo" "snd demo"])
qed

lemma elem_le_sum_list_real:
  "x \<in> set xs \<Longrightarrow> (\<And>y. y \<in> set xs \<Longrightarrow> 0 \<le> y) \<Longrightarrow> x \<le> sum_list (xs :: real list)"
proof (induction xs)
  case Nil
  then show ?case by simp
next
  case (Cons a xs)
  have nn: "0 \<le> sum_list xs" using Cons.prems(2) by (intro sum_list_nonneg) simp
  have a0: "0 \<le> a" using Cons.prems(2) by simp
  show ?case
  proof (cases "x = a")
    case True
    with nn show ?thesis by simp
  next
    case False
    with Cons.prems(1) have "x \<in> set xs" by simp
    then have "x \<le> sum_list xs" using Cons.prems(2) by (intro Cons.IH) simp_all
    with a0 show ?thesis by simp
  qed
qed

lemma softmax_unit_interval:
  assumes "p \<in> set (softmax zs)"
  shows "0 < p \<and> p \<le> 1"
proof -
  from assms obtain z where z: "z \<in> set zs" and p: "p = exp z / sum_list (map exp zs)"
    by (auto simp: softmax_def)
  from z have ne: "zs \<noteq> []" by auto
  have pos: "0 < sum_list (map exp zs)" by (rule sum_exp_pos[OF ne])
  have "exp z \<le> sum_list (map exp zs)"
    by (rule elem_le_sum_list_real) (use z in auto)
  with pos show ?thesis by (simp add: p)
qed

lemma crossentropy_nonneg:
  assumes "\<And>t. t \<in> set y \<Longrightarrow> 0 \<le> t" and "\<And>q. q \<in> set p \<Longrightarrow> 0 < q \<and> q \<le> 1"
  shows "0 \<le> categorical_crossentropy y p"
proof -
  have "sum_list (map2 (\<lambda>t q. t * ln q) y p) \<le> 0"
  proof (rule sum_list_nonpos)
    fix v assume "v \<in> set (map2 (\<lambda>t q. t * ln q) y p)"
    then obtain t q where tq: "(t, q) \<in> set (zip y p)" and v: "v = t * ln q" by auto
    from tq have "t \<in> set y" "q \<in> set p" by (auto dest: set_zip_leftD set_zip_rightD)
    with assms have "0 \<le> t" "0 < q" "q \<le> 1" by auto
    then have "ln q \<le> 0" by simp
    with \<open>0 \<le> t\<close> show "v \<le> 0" unfolding v by (rule mult_nonneg_nonpos)
  qed
  then show ?thesis by (simp add: categorical_crossentropy_def)
qed

lemma mean_nonneg: "(\<And>x. x \<in> set xs \<Longrightarrow> 0 \<le> x) \<Longrightarrow> 0 \<le> mean xs"
  by (simp add: mean_def sum_list_nonneg)

lemma sum_list_le_length:
  "(\<And>x. x \<in> set xs \<Longrightarrow> x \<le> 1) \<Longrightarrow> sum_list (xs :: real list) \<le> real (length xs)"
  by (induction xs) (simp_all add: add_mono)

lemma mean_le_one: "(\<And>x. x \<in> set xs \<Longrightarrow> x \<le> 1) \<Longrightarrow> mean xs \<le> 1"
  using sum_list_le_length[of xs] by (cases "xs = []") (simp_all add: mean_def)

lemma forward_softmax_head:
  assumes "layers net \<noteq> []" and "activation (last (layers net)) = Softmax"
  shows "\<exists>zs. forward net x = softmax zs"
proof -
  from assms(1) have "layers net = butlast (layers net) @ [last (layers net)]" by simp
  from forward_snoc[OF this] assms(2) show ?thesis by (auto simp: dense_call_def)
qed

lemma keras_score_bounds:
  assumes "layers net \<noteq> []" and "activation (last (layers net)) = Softmax"
    and "list_all (list_all (\<lambda>t. 0 \<le> t)) (snd d)"
  shows "0 \<le> fst (keras_score net d) \<and> 0 \<le> snd (keras_score net d)
     \<and> snd (keras_score net d) \<le> 1"
proof -
  let ?out = "map (forward net) (fst d)"
  have ce: "0 \<le> v" if "v \<in> set (map2 categorical_crossentropy (snd d) ?out)" for v
  proof -
    from that obtain y p where yp: "(y, p) \<in> set (zip (snd d) ?out)"
      and v: "v = categorical_crossentropy y p" by auto
    from yp have y: "y \<in> set (snd d)" and p: "p \<in> set ?out"
      by (auto dest: set_zip_leftD set_zip_rightD)
    from y assms(3) have ynn: "\<And>t. t \<in> set y \<Longrightarrow> 0 \<le> t" by (auto simp: list_all_iff)
    from p obtain x where "p = forward net x" by auto
    with forward_softmax_head[OF assms(1,2), of x] obtain zs where "p = softmax zs" by auto
    then have "\<And>q. q \<in> set p \<Longrightarrow> 0 < q \<and> q \<le> 1" by (simp add: softmax_unit_interval)
    with ynn show ?thesis unfolding v by (rule crossentropy_nonneg)
  qed
  have acc: "0 \<le> v \<and> v \<le> 1" if "v \<in> set (map2 categorical_accuracy (snd d) ?out)" for v
    using that by (auto simp: categorical_accuracy_def)
  have "0 \<le> mean (map2 categorical_crossentropy (snd d) ?out)"
    by (rule mean_nonneg) (rule ce)
  moreover have "0 \<le> mean (map2 categorical_accuracy (snd d) ?out)"
    by (rule mean_nonneg) (use acc in blast)
  moreover have "mean (map2 categorical_accuracy (snd d) ?out) \<le> 1"
    by (rule mean_le_one) (use acc in blast)
  ultimately show ?thesis by (simp add: keras_score_def Let_def)
qed

lemma zero_rows:
  "map (\<lambda>j. map (\<lambda>i. (0::real)) [0..<n]) [0..<m] = replicate m (replicate n 0)"
  by (simp add: map_replicate_const)

lemma dot_zero: "dot (replicate n 0) x = 0"
  by (simp add: dot_def zip_replicate1 o_def)

lemma dense_call_zero:
  "kernel l = replicate m (replicate n 0) \<Longrightarrow> bias l = replicate m 0
     \<Longrightarrow> dense_call l x = activate (activation l) (replicate m 0)"
  by (simp add: dense_call_def dot_zero)

lemma relu_zero: "map relu (replicate m 0) = replicate m 0"
  by (simp add: relu_def)

lemma softmax_zero: "softmax (replicate m 0) = replicate m (1 / real m)"
  by (simp add: softmax_def sum_list_replicate)

lemma demo_layers:
  "layers (heap (fst demo) 0) =
     [\<lparr>units = 64, activation = Relu, kernel = replicate 64 (replicate 10000 0),
        bias = replicate 64 0\<rparr>,
      \<lparr>units = 64, activation = Relu, kernel = replicate 64 (replicate 64 0),
        bias = replicate 64 0\<rparr>,
      \<lparr>units = 46, activation = Softmax, kernel = replicate 46 (replicate 64 0),
        bias = replicate 46 0\<rparr>]"
proof -
  from build_network_net[OF init_built[of "\<lambda>l j i. 0" boot "''/repo/model.py''"]]
  have "layers (heap (fst demo) (model (snd demo)))
      = snd (Dense (\<lambda>j i. 0) 46 Softmax (Dense (\<lambda>j i. 0) 64 Relu
               (Dense (\<lambda>j i. 0) 64 Relu (Input 10000))))"
    unfolding demo_def by blast
  then show ?thesis
    by (simp add: demo_facts Dense_layers Input_def zero_rows)
qed

lemma demo_forward: "forward (heap (fst demo) 0) x = replicate 46 (1 / 46)"
  by (simp add: forward_def demo_layers dense_call_zero[where m = 64 and n = 10000]
      dense_call_zero[where m = 64 and n = 64] dense_call_zero[where m = 46 and n = 64]
      relu_zero softmax_zero)

lemma crossentropy_single:
  "categorical_crossentropy (t # replicate n 0) (replicate (Suc n) q) = - (t * ln q)"
  by (simp add: categorical_crossentropy_def zip_replicate1 o_def sum_list_replicate)

lemma demo_softmax_head:
  "layers (heap (fst demo) (model (snd demo))) \<noteq> []"
  "activation (last (layers (heap (fst demo) (model (snd demo))))) = Softmax"
  by (simp_all add: demo_facts demo_layers)

lemma demo_label_shapes:
  "shapes_ok (heap (fst demo) (model (snd demo))) one_hot_sample"
  "shapes_ok (heap (fst demo) (model (snd demo))) negative_sample"
  by (simp_all add: shapes_ok_def one_hot_sample_def negative_sample_def demo_facts)

lemma demo_losses:
  "fst (keras_score (heap (fst demo) 0) one_hot_sample) = ln 46"
  "fst (keras_score (heap (fst demo) 0) negative_sample) = - ln 46"
proof -
  have r: "replicate 46 (1 / 46 :: real) = replicate (Suc 45) (1 / 46)" by simp
  show "fst (keras_score (heap (fst demo) 0) one_hot_sample) = ln 46"
    by (simp only: keras_score_def Let_def one_hot_sample_def fst_conv snd_conv list.map
        demo_forward r zip.simps list.case prod.case crossentropy_single mean_def)
       (simp add: ln_div)
  show "fst (keras_score (heap (fst demo) 0) negative_sample) = - ln 46"
    by (simp only: keras_score_def Let_def negative_sample_def fst_conv snd_conv list.map
        demo_forward r zip.simps list.case prod.case crossentropy_single mean_def)
       (simp add: ln_div)
qed

text \<open>
  C9, as amended. For a test split that fits the held network and whose label entries are
  all non-negative (as the entries of one-hot labels are), \<^verbatim>\<open>evaluate\<close> on a network whose
  output layer is a softmax layer (as \<^verbatim>\<open>build\<close> gives it) raises nothing and returns the pair of
  the mean cross-entropy and the mean accuracy of one forward pass over the split; the loss
  is a non-negative real number and the accuracy lies between 0 and 1. \<^verbatim>\<open>evaluate\<close> returns
  neither a world nor an object, so no parameter is updated.
\<close>

theorem evaluate_loss_nonneg:
  assumes "shapes_ok (heap w (model self)) test_set"
    and "layers (heap w (model self)) \<noteq> []"
    and "activation (last (layers (heap w (model self)))) = Softmax"
    and "list_all (list_all (\<lambda>t. 0 \<le> t)) (snd test_set)"
  shows "\<exists>loss acc.
      evaluate keras_score w self test_set = Inr (loss, acc)
      \<and> loss = mean (map2 categorical_crossentropy (snd test_set)
                        (map (forward (heap w (model self))) (fst test_set)))
      \<and> acc = mean (map2 categorical_accuracy (snd test_set)
                        (map (forward (heap w (model self))) (fst test_set)))
      \<and> 0 \<le> loss \<and> 0 \<le> acc \<and> acc \<le> 1"
proof -
  have e: "evaluate keras_score w self test_set
      = Inr (keras_score (heap w (model self)) test_set)"
    using assms(1) by (simp add: evaluate_scores)
  from keras_score_bounds[OF assms(2,3,4)] e show ?thesis
    by (simp add: keras_score_def Let_def)
qed

text \<open>
  The claim as stated (a non-negative loss for every test split) fails on a split that fits
  the network but carries a negative label entry: the constructed network gives every class
  the probability 1/46, and against the label with the entry -1 the loss is \<open>- ln 46\<close>.
\<close>

theorem evaluate_negative_label_counterexample:
  "shapes_ok (heap (fst demo) (model (snd demo))) negative_sample
   \<and> map_sum id fst (evaluate keras_score (fst demo) (snd demo) negative_sample) = Inr (- ln 46)
   \<and> - ln 46 < (0::real)"
proof -
  have "evaluate keras_score (fst demo) (snd demo) negative_sample
      = Inr (keras_score (heap (fst demo) 0) negative_sample)"
    using demo_label_shapes(2) by (simp add: evaluate_scores demo_facts)
  then have "map_sum id fst (evaluate keras_score (fst demo) (snd demo) negative_sample)
      = Inr (- ln 46)"
    by (simp add: demo_losses)
  with demo_label_shapes(2) show ?thesis by simp
qed

theorem evaluate_loss_nonneg_witness:
  "shapes_ok (heap (fst demo) (model (snd demo))) one_hot_sample
   \<and> layers (heap (fst demo) (model (snd demo))) \<noteq> []
   \<and> activation (last (layers (heap (fst demo) (model (snd demo))))) = Softmax
   \<and> list_all (list_all (\<lambda>t. 0 \<le> t)) (snd one_hot_sample)
   \<and> (\<exists>loss acc. evaluate keras_score (fst demo) (snd demo) one_hot_sample = Inr (loss, acc)
         \<and> loss = ln 46 \<and> 0 \<le> loss \<and> 0 \<le> acc \<and> acc \<le> 1)"
proof -
  have nn: "list_all (list_all (\<lambda>t. 0 \<le> t)) (snd one_hot_sample)"
    by (simp add: one_hot_sample_def list_all_iff)
  from evaluate_loss_nonneg[OF demo_label_shapes(1) demo_softmax_head nn]
  obtain loss acc where
    e: "evaluate keras_score (fst demo) (snd demo) one_hot_sample = Inr (loss, acc)"
    and b: "0 \<le> loss" "0 \<le> acc" "acc \<le> 1"
    by blast
  have "evaluate keras_score (fst demo) (snd demo) one_hot_sample
      = Inr (keras_score (heap (fst demo) 0) one_hot_sample)"
    using demo_label_shapes(1) by (simp add: evaluate_scores demo_facts)
  with e have "loss = fst (keras_score (heap (fst demo) 0) one_hot_sample)" by simp
  then have "loss = ln 46" by (simp add: demo_losses)
  with e b demo_label_shapes(1) demo_softmax_head nn show ?thesis by simp
qed

section \<open>Further properties of the script\<close>

text \<open>
  The held reference always names an object that has been created, so the reference a
  \<^verbatim>\<open>load\<close> or a \<^verbatim>\<open>build\<close> installs, the next free one, is never the old one.
\<close>

lemma held_reference_allocated:
  "model (snd (init script ini w)) < next_ref (fst (init script ini w))"
  "load w self dir model_name = Inr (m, w', self') \<Longrightarrow> model self' < next_ref w'"
  "build ini w self = (m, w', self') \<Longrightarrow> model self' < next_ref w'"
  "model self < next_ref w \<Longrightarrow> predict w self xs nm = Inr (ps, w', self')
     \<Longrightarrow> model self' < next_ref w'"
  "model self < next_ref w \<Longrightarrow> train opt sc w self tr dv ep bs sv = Inr ((h, m), w', self')
     \<Longrightarrow> model self' < next_ref w'"
proof -
  show "model (snd (init script ini w)) < next_ref (fst (init script ini w))"
    by (simp add: init_network)
  show "load w self dir model_name = Inr (m, w', self') \<Longrightarrow> model self' < next_ref w'"
    by (auto simp: load_eq split: option.splits)
  show "build ini w self = (m, w', self') \<Longrightarrow> model self' < next_ref w'"
  proof -
    assume b: "build ini w self = (m, w', self')"
    from build_eq[OF b] have bn: "build_network ini w = (m, w')"
      and s: "self' = self\<lparr>model := m\<rparr>" by simp_all
    from build_network_net[OF bn] have "m = next_ref w" "next_ref w' = next_ref w + 1" by blast+
    with s show ?thesis by simp
  qed
  show "model self < next_ref w \<Longrightarrow> predict w self xs nm = Inr (ps, w', self')
     \<Longrightarrow> model self' < next_ref w'"
  proof (cases "truthy nm")
    case False
    assume "model self < next_ref w" "predict w self xs nm = Inr (ps, w', self')"
    with False show ?thesis by (auto simp: predict_falsy split: sum.splits)
  next
    case True
    assume p: "predict w self xs nm = Inr (ps, w', self')"
    from True obtain s where "nm = Some s" "s \<noteq> []" by (cases nm) auto
    with p show ?thesis by (auto simp: predict_Some split: option.splits sum.splits)
  qed
  show "model self < next_ref w \<Longrightarrow> train opt sc w self tr dv ep bs sv = Inr ((h, m), w', self')
     \<Longrightarrow> model self' < next_ref w'"
  proof -
    assume a: "model self < next_ref w"
      and t: "train opt sc w self tr dv ep bs sv = Inr ((h, m), w', self')"
    from train_Inr[OF t] obtain w1 where
      f: "keras_fit opt sc w (model self) tr (default 512 bs) (default 1 ep) dv = Inr (h, w1)"
      and s: "self' = self\<lparr>train_history := Some h\<rparr>"
      and w': "w' = print (if default True sv
                         then save w1 self' (model self) (model_dir self) else w1)
                (''Model trained successfully and saved in '/model'' @ [CHR 0x27])"
      by blast
    from keras_fit_Inr[OF f] have "next_ref w1 = next_ref w" by blast
    with a show ?thesis by (simp add: s w' print_fields save_fields)
  qed
qed

text \<open>
  The message of \<^verbatim>\<open>train\<close> (line 70) stands after the conditional: every training run that
  returns prints that the model was saved, also when the flag is unset and nothing was
  written.
\<close>

theorem train_prints_saved:
  assumes "train opt sc w self train_set dev_set epochs batch_size save_model
             = Inr ((h, m), w', self')"
  shows "stdout w' = stdout w @ [''Model trained successfully and saved in '/model'' @ [CHR 0x27]]"
proof -
  from train_Inr[OF assms] obtain w1 where
    f: "keras_fit opt sc w (model self) train_set (default 512 batch_size) (default 1 epochs)
          dev_set = Inr (h, w1)"
    and w': "w' = print (if default True save_model
                         then save w1 self' (model self) (model_dir self) else w1)
                (''Model trained successfully and saved in '/model'' @ [CHR 0x27])"
    by blast
  from keras_fit_Inr[OF f] have "stdout w1 = stdout w" by blast
  then show ?thesis by (simp add: w' print_def save_fields)
qed

theorem train_prints_saved_witness:
  "\<exists>h w' self'.
      train (\<lambda>bs d n. (n, 0, 0)) (\<lambda>n d. (0, 0)) (fst demo) (snd demo) sample sample
        None None (Some False) = Inr ((h, 0), w', self')
      \<and> written w' = []
      \<and> stdout w' = [''Model trained successfully and saved in '/model'' @ [CHR 0x27]]"
proof -
  from demo_train[of "Some False"] obtain h w' where
    t: "train (\<lambda>bs d n. (n, 0, 0)) (\<lambda>n d. (0, 0)) (fst demo) (snd demo) sample sample
          None None (Some False) = Inr ((h, 0), w', (snd demo)\<lparr>train_history := Some h\<rparr>)"
    by blast
  from train_Inr[OF t] obtain w1 where
    f: "keras_fit (\<lambda>bs d n. (n, 0, 0)) (\<lambda>n d. (0, 0)) (fst demo) (model (snd demo)) sample
          (default 512 None) (default 1 None) sample = Inr (h, w1)"
    and w': "w' = print (if default True (Some False)
                         then save w1 ((snd demo)\<lparr>train_history := Some h\<rparr>) (model (snd demo))
                                (model_dir (snd demo))
                         else w1)
                (''Model trained successfully and saved in '/model'' @ [CHR 0x27])"
    by blast
  from keras_fit_Inr[OF f] have k: "written w1 = written (fst demo)" by blast
  have s0: "stdout (fst demo) = []"
    using build_network_net[OF init_built[of "\<lambda>l j i. 0" boot "''/repo/model.py''"]]
    by (simp add: demo_def boot_def)
  have wr: "written w' = []" by (simp add: w' print_fields k demo_facts)
  from train_prints_saved[OF t] s0 wr t show ?thesis by simp
qed

end
